theory Spec2Isabelle
  imports Complex_Main "HOL-Library.Log_Nat"
begin

section \<open>JavaScript values used by the front end\<close>

text \<open>
  The development embeds \<^verbatim>\<open>src/frontend/app.js\<close> (the first, multi-step version of
  the module in that file). A property of a JSON payload is absent (reading it gives
  \<^verbatim>\<open>undefined\<close>), \<^verbatim>\<open>null\<close>, or a value of the type the
  backend sends for it.
\<close>

datatype 'a field = Absent | Null | Val 'a

text \<open>
  What a \<^verbatim>\<open>catch\<close> can receive: the TypeError of reading a property of
  \<^verbatim>\<open>undefined\<close> or \<^verbatim>\<open>null\<close>, the SyntaxError of \<^verbatim>\<open>response.json()\<close> on a
  body that is not JSON, the rejection of \<^verbatim>\<open>fetch\<close> when no response arrives, and
  \<^verbatim>\<open>new Error(message)\<close> thrown by the module itself.
\<close>

datatype error = TypeError | SyntaxError | NetworkError | Error string

text \<open>Reading a property of \<^verbatim>\<open>undefined\<close> or \<^verbatim>\<open>null\<close> raises a TypeError.\<close>

fun deref :: "'a field \<Rightarrow> error + 'a" where
  "deref Absent = Inl TypeError"
| "deref Null = Inl TypeError"
| "deref (Val v) = Inr v"

definition and_then :: "error + 'a \<Rightarrow> ('a \<Rightarrow> error + 'b) \<Rightarrow> error + 'b" where
  "and_then r f = (case r of Inl e \<Rightarrow> Inl e | Inr v \<Rightarrow> f v)"

text \<open>\<^verbatim>\<open>xs.map(f)\<close> with a callback that may throw: the first exception ends the loop.\<close>

fun map_err :: "('a \<Rightarrow> error + 'b) \<Rightarrow> 'a list \<Rightarrow> error + 'b list" where
  "map_err f [] = Inr []"
| "map_err f (x # xs) =
     (case f x of Inl e \<Rightarrow> Inl e
      | Inr y \<Rightarrow> (case map_err f xs of Inl e \<Rightarrow> Inl e | Inr ys \<Rightarrow> Inr (y # ys)))"

subsection \<open>Numbers: IEEE 754 doubles\<close>

text \<open>
  A finite double is kept as the rational it denotes; the two zeros are one value (the
  module never divides by a zero and prints both as \<^verbatim>\<open>0\<close>). \<open>fl\<close> rounds a rational
  to the nearest double, ties to the even significand: 53 significant bits, exponents
  from \<open>-1074\<close>, infinity from \<open>2 ^ 1024\<close> on.
\<close>

datatype jsnum = Fin rat | PInf | NInf | NaN

definition pow2 :: "int \<Rightarrow> rat" where
  "pow2 e = (if 0 \<le> e then 2 ^ nat e else 1 / 2 ^ nat (- e))"

text \<open>\<open>ilog2 q\<close> is the exponent \<open>k\<close> with \<open>2 ^ k \<le> q < 2 ^ (k + 1)\<close>, for \<open>0 < q\<close>.\<close>

definition ilog2 :: "rat \<Rightarrow> int" where
  "ilog2 q = (case quotient_of q of (a, b) \<Rightarrow>
     let k = bitlen a - bitlen b in if pow2 k \<le> q then k else k - 1)"

definition round_half_even :: "rat \<Rightarrow> int" where
  "round_half_even x =
     (let f = \<lfloor>x\<rfloor>; d = x - of_int f
      in if d < 1 / 2 then f else if 1 / 2 < d then f + 1
         else if even f then f else f + 1)"

text \<open>
  The significand \<open>m\<close> is at most \<open>2 ^ 53\<close>, so the rounded value \<open>m * 2 ^ e\<close> reaches
  \<open>2 ^ 1024\<close> exactly when \<open>971 < e\<close>, or \<open>e = 971\<close> and \<open>m = 2 ^ 53\<close>.
\<close>

definition fl_pos :: "rat \<Rightarrow> jsnum" where
  "fl_pos q =
     (let e = max (ilog2 q - 52) (- 1074);
          m = round_half_even (q / pow2 e)
      in if 971 < e \<or> (e = 971 \<and> 9007199254740992 \<le> m) then PInf
         else Fin (of_int m * pow2 e))"

fun js_neg :: "jsnum \<Rightarrow> jsnum" where
  "js_neg (Fin q) = Fin (- q)"
| "js_neg PInf = NInf"
| "js_neg NInf = PInf"
| "js_neg NaN = NaN"

definition fl :: "rat \<Rightarrow> jsnum" where
  "fl q = (if q = 0 then Fin 0 else if 0 < q then fl_pos q else js_neg (fl_pos (- q)))"

text \<open>\<^verbatim>\<open>a / b\<close>, \<^verbatim>\<open>a * b\<close>, \<^verbatim>\<open>a > b\<close> and \<^verbatim>\<open>Math.round(a)\<close> on numbers.\<close>

fun js_div :: "jsnum \<Rightarrow> jsnum \<Rightarrow> jsnum" where
  "js_div NaN b = NaN"
| "js_div a NaN = NaN"
| "js_div (Fin a) (Fin b) =
     (if b = 0 then (if a = 0 then NaN else if 0 < a then PInf else NInf) else fl (a / b))"
| "js_div (Fin a) PInf = Fin 0"
| "js_div (Fin a) NInf = Fin 0"
| "js_div PInf (Fin b) = (if 0 \<le> b then PInf else NInf)"
| "js_div NInf (Fin b) = (if 0 \<le> b then NInf else PInf)"
| "js_div PInf PInf = NaN"
| "js_div PInf NInf = NaN"
| "js_div NInf PInf = NaN"
| "js_div NInf NInf = NaN"

fun js_mul :: "jsnum \<Rightarrow> jsnum \<Rightarrow> jsnum" where
  "js_mul NaN b = NaN"
| "js_mul a NaN = NaN"
| "js_mul (Fin a) (Fin b) = fl (a * b)"
| "js_mul (Fin a) PInf = (if a = 0 then NaN else if 0 < a then PInf else NInf)"
| "js_mul (Fin a) NInf = (if a = 0 then NaN else if 0 < a then NInf else PInf)"
| "js_mul PInf (Fin b) = (if b = 0 then NaN else if 0 < b then PInf else NInf)"
| "js_mul NInf (Fin b) = (if b = 0 then NaN else if 0 < b then NInf else PInf)"
| "js_mul PInf PInf = PInf"
| "js_mul PInf NInf = NInf"
| "js_mul NInf PInf = NInf"
| "js_mul NInf NInf = PInf"

fun js_gt :: "jsnum \<Rightarrow> jsnum \<Rightarrow> bool" where
  "js_gt NaN b = False"
| "js_gt a NaN = False"
| "js_gt (Fin a) (Fin b) = (b < a)"
| "js_gt (Fin a) PInf = False"
| "js_gt (Fin a) NInf = True"
| "js_gt PInf (Fin b) = True"
| "js_gt PInf PInf = False"
| "js_gt PInf NInf = True"
| "js_gt NInf b = False"

fun Math_round :: "jsnum \<Rightarrow> jsnum" where
  "Math_round (Fin x) = Fin (of_int \<lfloor>x + 1 / 2\<rfloor>)"
| "Math_round PInf = PInf"
| "Math_round NInf = NInf"
| "Math_round NaN = NaN"

text \<open>
  A count in a payload is a natural number; \<^verbatim>\<open>JSON.parse\<close> gives the nearest double.
  In arithmetic and comparisons \<^verbatim>\<open>undefined\<close> is \<^verbatim>\<open>NaN\<close> and
  \<^verbatim>\<open>null\<close> is \<^verbatim>\<open>0\<close>.
\<close>

fun to_number :: "nat field \<Rightarrow> jsnum" where
  "to_number Absent = NaN"
| "to_number Null = Fin 0"
| "to_number (Val n) = fl (of_nat n)"

subsection \<open>Markup\<close>

text \<open>
  The markup a display function assigns to \<^verbatim>\<open>innerHTML\<close> is a sequence of pieces:
  literal characters (a character outside ASCII as its UTF-8 bytes), an interpolated
  number (printed by the engine's number-to-string conversion), and the
  locale-dependent \<^verbatim>\<open>new Date(s).toLocaleDateString()\<close> of a string.
\<close>

datatype piece = Chars string | Number jsnum | LocaleDate string

type_synonym markup = "piece list"

text \<open>A value that is a string or a number (an identifier, a score, a year).\<close>

datatype scalar = Str string | Num jsnum

text \<open>\<^verbatim>\<open>${x}\<close> in a template literal.\<close>

fun show_string :: "string field \<Rightarrow> markup" where
  "show_string Absent = [Chars ''undefined'']"
| "show_string Null = [Chars ''null'']"
| "show_string (Val s) = [Chars s]"

fun show_scalar :: "scalar field \<Rightarrow> markup" where
  "show_scalar Absent = [Chars ''undefined'']"
| "show_scalar Null = [Chars ''null'']"
| "show_scalar (Val (Str s)) = [Chars s]"
| "show_scalar (Val (Num n)) = [Number n]"

fun show_count :: "nat field \<Rightarrow> markup" where
  "show_count Absent = [Chars ''undefined'']"
| "show_count Null = [Chars ''null'']"
| "show_count (Val n) = [Number (fl (of_nat n))]"

text \<open>Truthiness: the empty string, \<open>0\<close>, \<^verbatim>\<open>NaN\<close>, \<^verbatim>\<open>null\<close> and
  \<^verbatim>\<open>undefined\<close> are falsy; every object and every array is truthy.\<close>

fun truthy_string :: "string field \<Rightarrow> bool" where
  "truthy_string (Val s) = (s \<noteq> [])"
| "truthy_string _ = False"



subsection \<open>Strings and arrays\<close>


text \<open>\<^verbatim>\<open>s.replace('_', ' ')\<close>: a string pattern replaces its first occurrence only.\<close>

fun replace_underscore :: "string \<Rightarrow> string" where
  "replace_underscore [] = []"
| "replace_underscore (c # cs) =
     (if c = CHR ''_'' then CHR '' '' # cs else c # replace_underscore cs)"

definition startsWith :: "string \<Rightarrow> string \<Rightarrow> bool" where
  "startsWith s p = (take (length p) s = p)"

text \<open>
  \<^verbatim>\<open>xs.filter(p)\<close> visits the elements in index order and appends each one that
  passes to the result array.
\<close>

fun array_filter_loop :: "('a \<Rightarrow> bool) \<Rightarrow> 'a list \<Rightarrow> 'a list \<Rightarrow> 'a list" where
  "array_filter_loop p [] res = res"
| "array_filter_loop p (x # xs) res =
     array_filter_loop p xs (if p x then res @ [x] else res)"

definition array_filter :: "('a \<Rightarrow> bool) \<Rightarrow> 'a list \<Rightarrow> 'a list" where
  "array_filter p xs = array_filter_loop p xs []"

section \<open>Session state, requests and effects\<close>

text \<open>
  The draft gathered from the onboarding form (lines 262--282). \<^verbatim>\<open>formData.get\<close>
  gives a string or \<^verbatim>\<open>null\<close>; \<^verbatim>\<open>parseFloat(..) || null\<close> a number or
  \<^verbatim>\<open>null\<close>; the comma-separated lists are split and trimmed.
\<close>

record onboarding_data =
  data_name :: "string field"
  data_email :: "string field"
  data_major :: "string field"
  data_university :: "string field"
  data_gpa :: "jsnum field"
  data_career_aspirations :: "string field"
  data_target_industries :: "string list"
  data_current_skills :: "string list"
  data_experience_level :: "string field"
  data_preferred_learning :: "string field"
  data_preferred_content_types :: "string list"
  data_time_commitment :: "string field"
  data_profile_photo :: "string field"
  data_relocation_goal :: "string field"
  data_extracurricular_interests :: "string list"
  data_planning_horizon_years :: jsnum

text \<open>\<^verbatim>\<open>{ id: userId, ...data }\<close>\<close>

record user =
  user_id :: nat
  user_data :: onboarding_data

record task =
  task_item_id :: "scalar field"
  task_item_name :: "string field"
  task_item_type :: "string field"
  task_status :: "string field"
  task_completion_date :: "string field"
  task_encouragement_message :: "string field"

record progress =
  progress_status :: "string field"
  progress_encouragement_message :: "string field"

record item =
  item_progress :: "progress field"
  item_platform :: "string field"
  item_duration :: "string field"
  item_target_score :: "scalar field"
  item_timing :: "string field"
  item_when :: "string field"
  item_companies :: "string list field"
  item_provider :: "string field"
  item_skills_demonstrated :: "string list field"
  item_id :: "scalar field"
  item_name :: "string field"
  item_type :: "string field"
  item_description :: "string field"
  item_rationale :: "string field"

record phase =
  phase_title :: "string field"
  phase_phase :: "scalar field"
  phase_focus :: "string field"
  phase_courses :: "item list field"
  phase_projects :: "item list field"
  phase_certificates :: "item list field"
  phase_internships :: "item list field"
  phase_tests :: "item list field"

record roadmap =
  roadmap_phases :: "phase list field"

text \<open>\<^verbatim>\<open>AppState\<close> (lines 5--11).\<close>

record AppState =
  currentUser :: "user option"
  currentPage :: string
  roadmap :: "roadmap field"
  progressData :: "task list field"
  profileData :: "unit field"

definition initial_AppState :: AppState where
  "initial_AppState =
     \<lparr>currentUser = None, currentPage = ''onboarding'', roadmap = Null,
      progressData = Null, profileData = Null\<rparr>"

text \<open>The three POST requests of the onboarding submission, with their JSON bodies.\<close>

datatype request =
  Register "string field" "string field"
| Onboard nat onboarding_data
| Generate nat jsnum

text \<open>\<^verbatim>\<open>error.message\<close> of a caught exception, or a literal text.\<close>

datatype message = Text string | MessageOf error

datatype timer_action = ClickNav string

text \<open>
  What a handler does besides updating the state, in the order it does it. An input of
  the current form step is named by its index in \<^verbatim>\<open>querySelectorAll\<close>'s result.
\<close>

datatype effect =
  ShowLoading
| HideLoading
| Fetch request
| ConsoleError error
| ShowToast string string
| ShowStatusMessage string message string
| SetTimeout timer_action nat
| RemoveErrorClass nat
| AddErrorClass nat
| ReportValidity nat
| Focus nat
| ReadAsDataURL
| ActivateFilterButton

fun is_Fetch :: "effect \<Rightarrow> bool" where
  "is_Fetch (Fetch r) = True"
| "is_Fetch _ = False"

text \<open>
  The session state, the \<^verbatim>\<open>innerHTML\<close> of the page's containers by element id, and the
  effects so far (oldest first). The containers the module looks up by id are taken to
  exist in the page.
\<close>

record world =
  app :: AppState
  innerHTML :: "string \<Rightarrow> markup"
  trace :: "effect list"

definition emit :: "effect \<Rightarrow> world \<Rightarrow> world" where
  "emit e w = w\<lparr>trace := trace w @ [e]\<rparr>"

definition set_innerHTML :: "string \<Rightarrow> markup \<Rightarrow> world \<Rightarrow> world" where
  "set_innerHTML elementId html w = w\<lparr>innerHTML := (innerHTML w)(elementId := html)\<rparr>"

section \<open>Markup templates\<close>

text \<open>
  The template literals of the display functions, character for character; a hole
  \<^verbatim>\<open>${..}\<close> is a parameter. A character outside ASCII is named by its code
  point and stands for its UTF-8 bytes; the listings of the holes leave such characters
  out and cut long expressions short.
\<close>

definition U_1F389 :: string where
  "U_1F389 = [CHR 0xF0, CHR 0x9F, CHR 0x8E, CHR 0x89]"
















definition U_25B6 :: string where
  "U_25B6 = [CHR 0xE2, CHR 0x96, CHR 0xB6]"

definition U_2713 :: string where
  "U_2713 = [CHR 0xE2, CHR 0x9C, CHR 0x93]"














text \<open>
  The template literal of lines 573--590; its holes, in order:
  \<^verbatim>\<open>summary.total\<close>,
  \<^verbatim>\<open>summary.completed\<close>,
  \<^verbatim>\<open>summary.in_progress\<close>,
  \<^verbatim>\<open>percentage\<close>.
\<close>

definition summary_template :: "markup \<Rightarrow> markup \<Rightarrow> markup \<Rightarrow> markup \<Rightarrow> markup" where
  \<open>summary_template h1 h2 h3 h4 =
     [Chars (''\<newline>'' @
          ''        <div class="progress-stat">\<newline>'' @
          ''            <div class="progress-stat-value">'')] @
     h1 @
     [Chars (''</div>\<newline>'' @
          ''            <div class="progress-stat-label">Total Tasks</div>\<newline>'' @
          ''        </div>\<newline>'' @
          ''        <div class="progress-stat">\<newline>'' @
          ''            <div class="progress-stat-value">'')] @
     h2 @
     [Chars (''</div>\<newline>'' @
          ''            <div class="progress-stat-label">Completed</div>\<newline>'' @
          ''        </div>\<newline>'' @
          ''        <div class="progress-stat">\<newline>'' @
          ''            <div class="progress-stat-value">'')] @
     h3 @
     [Chars (''</div>\<newline>'' @
          ''            <div class="progress-stat-label">In Progress</div>\<newline>'' @
          ''        </div>\<newline>'' @
          ''        <div class="progress-stat">\<newline>'' @
          ''            <div class="progress-stat-value">'')] @
     h4 @
     [Chars (''%</div>\<newline>'' @
          ''            <div class="progress-stat-label">Completion Rate</div>\<newline>'' @
          ''        </div>\<newline>'' @
          ''    '')]\<close>

text \<open>
  The template literal of lines 608--631; its holes, in order:
  \<^verbatim>\<open>task.item_name\<close>,
  \<^verbatim>\<open>task.item_type\<close>,
  \<^verbatim>\<open>task.status\<close>,
  \<^verbatim>\<open>task.status.replace('_', ' ')\<close>,
  \<^verbatim>\<open>task.completion_date ? `<span> ${new Date(tas...\<close>,
  \<^verbatim>\<open>task.encouragement_message ? `<div class="enc...\<close>,
  \<^verbatim>\<open>task.status !== 'completed' ? ` <button class...\<close>.
\<close>

definition task_template :: "markup \<Rightarrow> markup \<Rightarrow> markup \<Rightarrow> markup \<Rightarrow> markup \<Rightarrow> markup \<Rightarrow> markup \<Rightarrow> markup" where
  \<open>task_template h1 h2 h3 h4 h5 h6 h7 =
     [Chars (''\<newline>'' @
          ''        <div class="task-card">\<newline>'' @
          ''            <div class="task-info">\<newline>'' @
          ''                <div class="task-name">'')] @
     h1 @
     [Chars (''</div>\<newline>'' @
          ''                <div class="task-meta">\<newline>'' @
          ''                    <span class="item-type">'')] @
     h2 @
     [Chars (''</span>\<newline>'' @
          ''                    <span class="status-badge status-'')] @
     h3 @
     [Chars (''">'')] @
     h4 @
     [Chars (''</span>\<newline>'' @
          ''                    '')] @
     h5 @
     [Chars (''\<newline>'' @
          ''                </div>\<newline>'' @
          ''                '')] @
     h6 @
     [Chars (''\<newline>'' @
          ''            </div>\<newline>'' @
          ''            <div class="task-actions">\<newline>'' @
          ''                '')] @
     h7 @
     [Chars (''\<newline>'' @
          ''            </div>\<newline>'' @
          ''        </div>\<newline>'' @
          ''    '')]\<close>

text \<open>
  The template literal of lines 615--615; its holes, in order:
  \<^verbatim>\<open>new Date(task.completion_date).toLocaleDateSt...\<close>.
\<close>

definition task_date_template :: "markup \<Rightarrow> markup" where
  \<open>task_date_template h1 =
     [Chars (''<span>'' @
          U_2713 @
          '' '')] @
     h1 @
     [Chars (''</span>'')]\<close>

text \<open>
  The template literal of lines 618--618; its holes, in order:
  \<^verbatim>\<open>task.encouragement_message\<close>.
\<close>

definition task_encouragement_template :: "markup \<Rightarrow> markup" where
  \<open>task_encouragement_template h1 =
     [Chars (''<div class="encouragement-message">'')] @
     h1 @
     [Chars (''</div>'')]\<close>

text \<open>
  The template literal of lines 621--628; its holes, in order:
  \<^verbatim>\<open>task.item_id\<close>,
  \<^verbatim>\<open>task.item_id\<close>.
\<close>

definition task_buttons_template :: "markup \<Rightarrow> markup \<Rightarrow> markup" where
  \<open>task_buttons_template h1 h2 =
     [Chars (''\<newline>'' @
          ''                    <button class="btn btn-secondary" onclick="updateTaskStatus('' @
          [CHR 0x27])] @
     h1 @
     [Chars ([CHR 0x27] @
          '', '' @
          [CHR 0x27] @
          ''in_progress'' @
          [CHR 0x27] @
          '')">\<newline>'' @
          ''                        '' @
          U_25B6 @
          '' Start\<newline>'' @
          ''                    </button>\<newline>'' @
          ''                    <button class="btn btn-success" onclick="updateTaskStatus('' @
          [CHR 0x27])] @
     h2 @
     [Chars ([CHR 0x27] @
          '', '' @
          [CHR 0x27] @
          ''completed'' @
          [CHR 0x27] @
          '')">\<newline>'' @
          ''                        '' @
          U_2713 @
          '' Complete\<newline>'' @
          ''                    </button>\<newline>'' @
          ''                '')]\<close>





















definition tasks_empty_state :: string where
  \<open>tasks_empty_state =
     ''<p class="empty-state">No tasks found</p>''\<close>



definition task_completed_span :: string where
  \<open>task_completed_span =
     ''<span style="color: var(--success-color); font-weight: bold;">'' @
     U_2713 @
     '' Completed</span>''\<close>

definition onboarding_success_status :: string where
  \<open>onboarding_success_status =
     ''Success! Navigate to "My Roadmap" to see your personalized path.''\<close>

definition onboarding_success_toast :: string where
  \<open>onboarding_success_toast =
     ''Growth path generated successfully! '' @
     U_1F389\<close>

definition task_completed_toast :: string where
  \<open>task_completed_toast =
     U_1F389 @
     '' Great job! Task completed!''\<close>

section \<open>Display functions\<close>

text \<open>
  Each display function computes a markup string \<^verbatim>\<open>html\<close> from its payload and
  assigns it to the \<^verbatim>\<open>innerHTML\<close> of one container. \<open>f_html\<close> is the string (or the
  exception raised on the way), \<open>f\<close> the assignment in the page.
\<close>

definition display :: "string \<Rightarrow> error + markup \<Rightarrow> world \<Rightarrow> error + world" where
  "display elementId html w = and_then html (\<lambda>h. Inr (set_innerHTML elementId h w))"

subsection \<open>\<^verbatim>\<open>displayAnalysis\<close> (lines 401--435)\<close>





subsection \<open>\<^verbatim>\<open>renderItem\<close>, \<^verbatim>\<open>renderPhaseItems\<close>, \<^verbatim>\<open>displayRoadmap\<close> (lines 437--533)\<close>










subsection \<open>\<^verbatim>\<open>displayProgressSummary\<close> (lines 566--593)\<close>

record summary =
  total :: "nat field"
  completed :: "nat field"
  in_progress :: "nat field"

definition percentage :: "summary \<Rightarrow> jsnum" where
  "percentage s =
     (if js_gt (to_number (total s)) (Fin 0)
      then Math_round (js_mul (js_div (to_number (completed s)) (to_number (total s))) (Fin 100))
      else Fin 0)"

definition displayProgressSummary_html :: "summary field \<Rightarrow> error + markup" where
  "displayProgressSummary_html summary =
     and_then (deref summary) (\<lambda>s.
       Inr (summary_template (show_count (total s)) (show_count (completed s))
              (show_count (in_progress s)) [Number (percentage s)]))"


subsection \<open>\<^verbatim>\<open>displayTasks\<close> (lines 595--634)\<close>

text \<open>Lines 598--601; \<^verbatim>\<open>t.item_type === filter\<close> holds for a string equal to the filter.\<close>

definition filteredTasks :: "task list \<Rightarrow> string \<Rightarrow> task list" where
  "filteredTasks tasks filter' =
     (if filter' \<noteq> ''all'' then array_filter (\<lambda>t. task_item_type t = Val filter') tasks
      else tasks)"

text \<open>The callback of \<^verbatim>\<open>filteredTasks.map\<close> (lines 608--631).\<close>

definition render_task :: "task \<Rightarrow> error + markup" where
  "render_task task =
     and_then (deref (task_status task)) (\<lambda>status.
       Inr (task_template
              (show_string (task_item_name task))
              (show_string (task_item_type task))
              [Chars status]
              [Chars (replace_underscore status)]
              (case task_completion_date task of
                 Val d \<Rightarrow> if d \<noteq> [] then task_date_template [LocaleDate d] else []
               | Absent \<Rightarrow> []
               | Null \<Rightarrow> [])
              (if truthy_string (task_encouragement_message task)
               then task_encouragement_template (show_string (task_encouragement_message task))
               else [])
              (if status \<noteq> ''completed''
               then task_buttons_template (show_scalar (task_item_id task))
                      (show_scalar (task_item_id task))
               else [Chars task_completed_span])))"

text \<open>The second argument is \<open>None\<close> when the caller passes \<^verbatim>\<open>undefined\<close> or nothing:
  the parameter then takes its default \<^verbatim>\<open>'all'\<close>.\<close>

definition displayTasks_html :: "task list field \<Rightarrow> string option \<Rightarrow> error + markup" where
  "displayTasks_html tasks filter' =
     and_then (deref tasks) (\<lambda>ts.
       let filtered = filteredTasks ts (case filter' of None \<Rightarrow> ''all'' | Some f \<Rightarrow> f)
       in if length filtered = 0 then Inr [Chars tasks_empty_state]
          else and_then (map_err render_task filtered) (\<lambda>cards. Inr (concat cards)))"

definition displayTasks :: "task list field \<Rightarrow> string option \<Rightarrow> world \<Rightarrow> error + world" where
  "displayTasks tasks filter' = display ''progress-tasks'' (displayTasks_html tasks filter')"

subsection \<open>\<^verbatim>\<open>displayResume\<close> (lines 735--838)\<close>
















subsection \<open>\<^verbatim>\<open>displayLinkedIn\<close> (lines 840--893)\<close>








section \<open>The multi-step onboarding form (lines 89--172)\<close>

text \<open>
  An input of a form step, as the next-button handler reads it: \<^verbatim>\<open>input.type\<close> and
  the result of \<^verbatim>\<open>input.checkValidity()\<close>.
\<close>

record input =
  input_type :: string
  input_valid :: bool

text \<open>
  What the handlers find in the document when they run: the number of
  \<^verbatim>\<open>.form-step\<close> elements, the inputs of the first \<^verbatim>\<open>.form-step\<close> whose
  \<^verbatim>\<open>data-step\<close> is a given step (\<open>None\<close> when \<^verbatim>\<open>querySelector\<close> gives
  \<^verbatim>\<open>null\<close>), the \<^verbatim>\<open>parseInt\<close> of each step dot's \<^verbatim>\<open>data-step\<close> (\<open>None\<close>
  for \<^verbatim>\<open>NaN\<close>), and whether each of the three buttons exists.
\<close>

record page =
  page_steps :: nat
  page_stepEl :: "nat \<Rightarrow> input list option"
  page_dots :: "nat option list"
  page_prevBtn :: bool
  page_nextBtn :: bool
  page_submitBtn :: bool

text \<open>
  The closure variable \<^verbatim>\<open>currentStep\<close> and what the script has set so far: the step
  with class \<^verbatim>\<open>active\<close>, the dots with class \<^verbatim>\<open>active\<close>, and
  \<^verbatim>\<open>style.display\<close> of the three buttons (\<open>None\<close>: never set).
\<close>

record onboarding =
  currentStep :: nat
  active_step :: "nat option"
  active_dots :: "bool list"
  prevBtn_display :: "string option"
  nextBtn_display :: "string option"
  submitBtn_display :: "string option"

definition totalSteps :: nat where
  "totalSteps = 4"

definition updateStepVisibility :: "page \<Rightarrow> onboarding \<Rightarrow> onboarding" where
  "updateStepVisibility pg s =
     (if page_steps pg = 0 then s
      else s\<lparr>active_step := (case page_stepEl pg (currentStep s) of
                               None \<Rightarrow> None | Some el \<Rightarrow> Some (currentStep s)),
              active_dots := map (\<lambda>d. case d of None \<Rightarrow> False | Some step \<Rightarrow> step \<le> currentStep s)
                               (page_dots pg),
              prevBtn_display :=
                (if page_prevBtn pg
                 then Some (if 1 < currentStep s then ''inline-flex'' else ''none'')
                 else prevBtn_display s),
              nextBtn_display :=
                (if page_nextBtn pg
                 then Some (if currentStep s = totalSteps then ''none'' else ''inline-flex'')
                 else nextBtn_display s),
              submitBtn_display :=
                (if page_submitBtn pg
                 then Some (if currentStep s = totalSteps then ''inline-flex'' else ''none'')
                 else submitBtn_display s)\<rparr>)"

text \<open>
  The \<^verbatim>\<open>inputs.forEach\<close> of the next-button handler (lines 134--150), from index \<open>i\<close>
  on: the flag \<^verbatim>\<open>isValid\<close>, the index of \<^verbatim>\<open>firstInvalid\<close>, and the calls made
  on the inputs.
\<close>

fun check_inputs ::
  "nat \<Rightarrow> input list \<Rightarrow> bool \<times> nat option \<times> effect list \<Rightarrow> bool \<times> nat option \<times> effect list" where
  "check_inputs i [] acc = acc"
| "check_inputs i (input # inputs) (isValid, firstInvalid, effects) =
     (if input_type input = ''hidden''
      then check_inputs (i + 1) inputs (isValid, firstInvalid, effects)
      else if \<not> input_valid input
      then check_inputs (i + 1) inputs
             (False,
              (if firstInvalid = None then Some i else firstInvalid),
              effects @ [RemoveErrorClass i, ReportValidity i, AddErrorClass i])
      else check_inputs (i + 1) inputs (isValid, firstInvalid, effects @ [RemoveErrorClass i]))"

text \<open>An input that is not hidden and fails its constraint check.\<close>

definition invalid_field :: "input \<Rightarrow> bool" where
  "invalid_field x = (input_type x \<noteq> ''hidden'' \<and> \<not> input_valid x)"

text \<open>The click handler of the next button exists when the button does (line 127).\<close>

definition nextBtn_click :: "page \<Rightarrow> onboarding \<Rightarrow> onboarding \<times> effect list" where
  "nextBtn_click pg s =
     (case page_stepEl pg (currentStep s) of
        None \<Rightarrow> (s, [])
      | Some inputs \<Rightarrow>
          (case check_inputs 0 inputs (True, None, []) of
             (isValid, firstInvalid, effects) \<Rightarrow>
               if isValid
               then (if currentStep s < totalSteps
                     then (updateStepVisibility pg (s\<lparr>currentStep := currentStep s + 1\<rparr>), effects)
                     else (s, effects))
               else (s, effects
                        @ (case firstInvalid of None \<Rightarrow> [] | Some i \<Rightarrow> [Focus i])
                        @ [ShowToast ''Please fill in all required fields.'' ''error''])))"

definition prevBtn_click :: "page \<Rightarrow> onboarding \<Rightarrow> onboarding" where
  "prevBtn_click pg s =
     (if 1 < currentStep s
      then updateStepVisibility pg (s\<lparr>currentStep := currentStep s - 1\<rparr>)
      else s)"

text \<open>
  \<^verbatim>\<open>initOnboarding\<close> sets \<^verbatim>\<open>currentStep = 1\<close> and calls
  \<^verbatim>\<open>updateStepVisibility()\<close> once (line 255).
\<close>

definition initOnboarding :: "page \<Rightarrow> onboarding" where
  "initOnboarding pg =
     updateStepVisibility pg
       \<lparr>currentStep = 1, active_step = None, active_dots = [],
        prevBtn_display = None, nextBtn_display = None, submitBtn_display = None\<rparr>"

text \<open>A click on one of the two buttons, with the document as it is at that moment.\<close>

datatype click = Next page | Prev page

fun on_click :: "onboarding \<Rightarrow> click \<Rightarrow> onboarding" where
  "on_click s (Next pg) = fst (nextBtn_click pg s)"
| "on_click s (Prev pg) = prevBtn_click pg s"

definition run_clicks :: "onboarding \<Rightarrow> click list \<Rightarrow> onboarding" where
  "run_clicks s clicks = foldl on_click s clicks"

fun click_page :: "click \<Rightarrow> page" where
  "click_page (Next pg) = pg"
| "click_page (Prev pg) = pg"

text \<open>The submit button's display follows the counter once a page with form steps and
  the button has been rendered.\<close>

definition submit_follows :: "onboarding \<Rightarrow> bool" where
  "submit_follows s =
     (submitBtn_display s
        = Some (if currentStep s = totalSteps then ''inline-flex'' else ''none''))"

section \<open>The image upload (lines 177--220)\<close>

record File =
  file_type :: string
  file_size :: nat

text \<open>
  The value of the hidden input \<^verbatim>\<open>profile-photo-base64\<close> and the \<^verbatim>\<open>src\<close> of the
  image in the preview (\<open>None\<close>: the preview still has its original content).
\<close>

record photo =
  photoBase64_value :: string
  photoPreview_src :: "string option"

text \<open>
  The change handler, for \<^verbatim>\<open>e.target.files[0]\<close> (\<open>None\<close> when no file is selected):
  the calls it makes, ending with \<open>ReadAsDataURL\<close> when it hands the file to the reader.
\<close>

definition photoInput_change :: "File option \<Rightarrow> effect list" where
  "photoInput_change f =
     (case f of
        None \<Rightarrow> []
      | Some file \<Rightarrow>
          if \<not> startsWith (file_type file) ''image/''
          then [ShowToast ''Please upload a valid image file'' ''error'']
          else if 2 * 1024 * 1024 < file_size file
          then [ShowToast ''Image is too large (max 2MB)'' ''error'']
          else [ReadAsDataURL])"

definition reader_onload :: "string \<Rightarrow> photo \<Rightarrow> photo" where
  "reader_onload result p = \<lparr>photoBase64_value = result, photoPreview_src = Some result\<rparr>"

definition reader_onerror :: "effect list" where
  "reader_onerror = [ShowToast ''Error reading file'' ''error'']"

text \<open>
  One selection from start to end: the handler, then, when the file went to the reader,
  the reader's \<^verbatim>\<open>onload\<close> with the data URL (\<open>Some\<close>) or its \<^verbatim>\<open>onerror\<close>
  (\<open>None\<close>).
\<close>

definition photo_upload :: "File option \<Rightarrow> string option \<Rightarrow> photo \<Rightarrow> photo \<times> effect list" where
  "photo_upload f read p =
     (let effects = photoInput_change f
      in if ReadAsDataURL \<in> set effects
         then (case read of
                 Some result \<Rightarrow> (reader_onload result p, effects)
               | None \<Rightarrow> (p, effects @ reader_onerror))
         else (p, effects))"

section \<open>The onboarding submission (lines 257--356)\<close>

text \<open>
  What \<^verbatim>\<open>await fetch(..)\<close> gives: a rejection (no response arrived), or a response
  with its status and what \<^verbatim>\<open>await response.json()\<close> gives, a rejection for a body
  that is not JSON or the parsed value. \<^verbatim>\<open>response.ok\<close> is a status from 200 to 299.
\<close>

datatype 'a parsed = InvalidJSON | Parsed 'a

record 'a response =
  response_status :: nat
  response_json :: "'a parsed"

datatype 'a fetched = Rejected | Resolved "'a response"

definition ok :: "'a response \<Rightarrow> bool" where
  "ok r = (200 \<le> response_status r \<and> response_status r \<le> 299)"

text \<open>The body of the registration response: \<^verbatim>\<open>registerData.user?.id\<close>.\<close>

record user_ref =
  user_ref_id :: "nat field"

record register_body =
  register_user :: "user_ref field"

record replies =
  reply_register :: "register_body field fetched"
  reply_onboard :: "unit fetched"
  reply_generate :: "unit fetched"

text \<open>Lines 353--356.\<close>

definition getUserIdByEmail :: "string field \<Rightarrow> nat" where
  "getUserIdByEmail email = 1"

text \<open>
  Line 302: \<^verbatim>\<open>registerData.user?.id || (await getUserIdByEmail(data.email))\<close>. A body
  that is \<^verbatim>\<open>null\<close> raises; an identifier that is missing or \<open>0\<close> is falsy.
\<close>

definition optional_user_id :: "register_body \<Rightarrow> nat field" where
  "optional_user_id body =
     (case register_user body of Val u \<Rightarrow> user_ref_id u | Absent \<Rightarrow> Absent | Null \<Rightarrow> Absent)"

fun truthy_id :: "nat field \<Rightarrow> bool" where
  "truthy_id (Val n) = (n \<noteq> 0)"
| "truthy_id Absent = False"
| "truthy_id Null = False"

definition resolve_userId :: "register_body field \<Rightarrow> string field \<Rightarrow> error + nat" where
  "resolve_userId registerData email =
     and_then (deref registerData) (\<lambda>body.
       case optional_user_id body of
         Val n \<Rightarrow> if n \<noteq> 0 then Inr n else Inr (getUserIdByEmail email)
       | Absent \<Rightarrow> Inr (getUserIdByEmail email)
       | Null \<Rightarrow> Inr (getUserIdByEmail email))"

text \<open>
  What each of the three steps makes of its reply, once its request is sent: the
  exception it raises, or its result. Lines 297--302, 314--318 and 331--333.
\<close>

definition register_step :: "replies \<Rightarrow> string field \<Rightarrow> error + nat" where
  "register_step r email =
     (case reply_register r of
        Rejected \<Rightarrow> Inl NetworkError
      | Resolved registerResponse \<Rightarrow>
          if \<not> ok registerResponse \<and> response_status registerResponse \<noteq> 409
          then Inl (Error ''Failed to register user'')
          else (case response_json registerResponse of
                  InvalidJSON \<Rightarrow> Inl SyntaxError
                | Parsed registerData \<Rightarrow> resolve_userId registerData email))"

definition onboard_step :: "replies \<Rightarrow> error + unit" where
  "onboard_step r =
     (case reply_onboard r of
        Rejected \<Rightarrow> Inl NetworkError
      | Resolved onboardResponse \<Rightarrow>
          if \<not> ok onboardResponse
          then Inl (Error ''Failed to complete onboarding'')
          else (case response_json onboardResponse of
                  InvalidJSON \<Rightarrow> Inl SyntaxError
                | Parsed onboardData \<Rightarrow> Inr onboardData))"

definition generate_step :: "replies \<Rightarrow> error + unit" where
  "generate_step r =
     (case reply_generate r of
        Rejected \<Rightarrow> Inl NetworkError
      | Resolved roadmapResponse \<Rightarrow>
          if \<not> ok roadmapResponse
          then Inl (Error ''Failed to generate growth path'')
          else Inr ())"

text \<open>
  The \<^verbatim>\<open>try\<close> block (lines 261--343) gives the world it leaves and the exception
  it raised, if any. The draft is what lines 262--282 gather from the form, or the
  exception they raise (a field of the form that is missing). Line 285 takes the timeline
  from the same slider value as \<^verbatim>\<open>planning_horizon_years\<close>.
\<close>

definition set_currentUser :: "user \<Rightarrow> world \<Rightarrow> world" where
  "set_currentUser u w = w\<lparr>app := (app w)\<lparr>currentUser := Some u\<rparr>\<rparr>"

definition submit_success :: "world \<Rightarrow> world" where
  "submit_success =
     emit (SetTimeout (ClickNav ''roadmap'') 2000)
     \<circ> emit (ShowStatusMessage ''onboarding-status'' (Text onboarding_success_status) ''success'')
     \<circ> emit (ShowToast onboarding_success_toast ''success'')
     \<circ> emit HideLoading"

definition submit_try :: "error + onboarding_data \<Rightarrow> replies \<Rightarrow> world \<Rightarrow> world \<times> error option" where
  "submit_try gathered r w =
     (case gathered of
        Inl e \<Rightarrow> (w, Some e)
      | Inr data \<Rightarrow>
          let timeline = js_mul (data_planning_horizon_years data) (Fin 12);
              w1 = emit (Fetch (Register (data_email data) (data_name data))) w
          in case register_step r (data_email data) of
               Inl e \<Rightarrow> (w1, Some e)
             | Inr userId \<Rightarrow>
                 let w2 = emit (Fetch (Onboard userId data)) w1
                 in case onboard_step r of
                      Inl e \<Rightarrow> (w2, Some e)
                    | Inr onboardData \<Rightarrow>
                        let w3 = set_currentUser \<lparr>user_id = userId, user_data = data\<rparr> w2;
                            w4 = emit (Fetch (Generate userId timeline)) w3
                        in case generate_step r of
                             Inl e \<Rightarrow> (w4, Some e)
                           | Inr u \<Rightarrow> (submit_success w4, None))"

text \<open>The \<^verbatim>\<open>catch\<close> block (lines 344--349).\<close>

definition submit_catch :: "error \<Rightarrow> world \<Rightarrow> world" where
  "submit_catch e =
     emit (ShowStatusMessage ''onboarding-status'' (MessageOf e) ''error'')
     \<circ> emit (ShowToast ''Error during onboarding. Please try again.'' ''error'')
     \<circ> emit (ConsoleError e)
     \<circ> emit HideLoading"

definition submit :: "error + onboarding_data \<Rightarrow> replies \<Rightarrow> world \<Rightarrow> world" where
  "submit gathered r w =
     (case submit_try gathered r (emit ShowLoading w) of
        (w', None) \<Rightarrow> w'
      | (w', Some e) \<Rightarrow> submit_catch e w')"

text \<open>The requests a handler has sent, and the effects it added to the world it started in.\<close>

definition requests :: "effect list \<Rightarrow> request list" where
  "requests effects = concat (map (\<lambda>e. case e of Fetch r \<Rightarrow> [r] | _ \<Rightarrow> []) effects)"

definition added :: "world \<Rightarrow> world \<Rightarrow> effect list" where
  "added w w' = drop (length (trace w)) (trace w')"

text \<open>The failure is shown to the user: the error toast and the status line with the
  exception's message.\<close>

definition failure_shown :: "error \<Rightarrow> effect list \<Rightarrow> bool" where
  "failure_shown e effects =
     (ShowToast ''Error during onboarding. Please try again.'' ''error'' \<in> set effects
      \<and> ShowStatusMessage ''onboarding-status'' (MessageOf e) ''error'' \<in> set effects)"

section \<open>The progress filters (lines 681--695)\<close>

text \<open>
  The click handler of a filter button, for its \<^verbatim>\<open>dataset.filter\<close> (\<open>None\<close> when the
  attribute is missing). Nothing catches an exception of \<^verbatim>\<open>displayTasks\<close> here.
\<close>

definition filterBtn_click :: "string option \<Rightarrow> world \<Rightarrow> world \<times> error option" where
  "filterBtn_click filter' w =
     (let w1 = emit ActivateFilterButton w
      in case progressData (app w1) of
           Val tasks \<Rightarrow>
             (case displayTasks (Val tasks) filter' w1 of
                Inl e \<Rightarrow> (w1, Some e)
              | Inr w2 \<Rightarrow> (w2, None))
         | Absent \<Rightarrow> (w1, None)
         | Null \<Rightarrow> (w1, None))"

section \<open>Example inputs\<close>

definition initial_world :: world where
  "initial_world = \<lparr>app = initial_AppState, innerHTML = (\<lambda>elementId. []), trace = []\<rparr>"

definition example_data :: onboarding_data where
  "example_data =
     \<lparr>data_name = Val ''Asha'', data_email = Val ''a@x.com'', data_major = Val ''CS'',
      data_university = Val ''MIT'', data_gpa = Val (Fin 3), data_career_aspirations = Val ''SWE'',
      data_target_industries = [''tech''], data_current_skills = [''python'', ''sql''],
      data_experience_level = Val ''beginner'', data_preferred_learning = Val ''video'',
      data_preferred_content_types = [], data_time_commitment = Val ''10'',
      data_profile_photo = Null, data_relocation_goal = Null,
      data_extracurricular_interests = [], data_planning_horizon_years = Fin 2\<rparr>"

text \<open>A reply with the given status and a body that parses to the given value.\<close>

definition reply :: "nat \<Rightarrow> 'a \<Rightarrow> 'a fetched" where
  "reply code body = Resolved \<lparr>response_status = code, response_json = Parsed body\<rparr>"

definition registered :: "nat \<Rightarrow> register_body field" where
  "registered n = Val \<lparr>register_user = Val \<lparr>user_ref_id = Val n\<rparr>\<rparr>"

definition conflict_body :: "register_body field" where
  "conflict_body = Val \<lparr>register_user = Absent\<rparr>"

text \<open>Registration and onboarding succeed, roadmap generation answers 500.\<close>

definition generate_fails :: replies where
  "generate_fails =
     \<lparr>reply_register = reply 201 (registered 7), reply_onboard = reply 200 (),
      reply_generate = reply 500 ()\<rparr>"

text \<open>Registration succeeds, onboarding answers 400.\<close>

definition onboard_fails :: replies where
  "onboard_fails =
     \<lparr>reply_register = reply 201 (registered 7), reply_onboard = reply 400 (),
      reply_generate = reply 200 ()\<rparr>"

text \<open>Registration answers 409 with a body that names no user; the rest succeeds.\<close>

definition already_registered :: replies where
  "already_registered =
     \<lparr>reply_register = reply 409 conflict_body, reply_onboard = reply 200 (),
      reply_generate = reply 200 ()\<rparr>"

text \<open>Registration answers 409 with a body that is not JSON; the rest succeeds.\<close>

definition conflict_not_json :: replies where
  "conflict_not_json =
     \<lparr>reply_register = Resolved \<lparr>response_status = 409, response_json = InvalidJSON\<rparr>,
      reply_onboard = reply 200 (), reply_generate = reply 200 ()\<rparr>"

text \<open>Registration answers 409 with the body \<^verbatim>\<open>null\<close>; the rest succeeds.\<close>

definition conflict_null :: replies where
  "conflict_null =
     \<lparr>reply_register = reply 409 Null, reply_onboard = reply 200 (),
      reply_generate = reply 200 ()\<rparr>"

text \<open>Registration answers 409 with a body that names user 42; the rest succeeds.\<close>

definition conflict_names_user :: replies where
  "conflict_names_user =
     \<lparr>reply_register = reply 409 (registered 42), reply_onboard = reply 200 (),
      reply_generate = reply 200 ()\<rparr>"

text \<open>Registration answers 500.\<close>

definition register_fails :: replies where
  "register_fails =
     \<lparr>reply_register = reply 500 conflict_body, reply_onboard = reply 200 (),
      reply_generate = reply 200 ()\<rparr>"

text \<open>A form of four steps whose inputs are valid, and the same form with an empty
  required field in its first step, after a hidden input.\<close>

definition valid_page :: page where
  "valid_page =
     \<lparr>page_steps = 4,
      page_stepEl = (\<lambda>n. if 1 \<le> n \<and> n \<le> 4
                           then Some [\<lparr>input_type = ''text'', input_valid = True\<rparr>] else None),
      page_dots = [Some 1, Some 2, Some 3, Some 4],
      page_prevBtn = True, page_nextBtn = True, page_submitBtn = True\<rparr>"

definition invalid_page :: page where
  "invalid_page =
     valid_page\<lparr>page_stepEl := (page_stepEl valid_page)
       (1 := Some [\<lparr>input_type = ''hidden'', input_valid = False\<rparr>,
                   \<lparr>input_type = ''text'', input_valid = True\<rparr>,
                   \<lparr>input_type = ''email'', input_valid = False\<rparr>,
                   \<lparr>input_type = ''text'', input_valid = False\<rparr>])\<rparr>"

definition example_task :: "string \<Rightarrow> string \<Rightarrow> task" where
  "example_task name type =
     \<lparr>task_item_id = Val (Num (Fin 1)), task_item_name = Val name, task_item_type = Val type,
      task_status = Val ''not_started'', task_completion_date = Null,
      task_encouragement_message = Null\<rparr>"

definition example_tasks :: "task list" where
  "example_tasks =
     [example_task ''Algebra'' ''course'', example_task ''Blog'' ''project'',
      example_task ''Calculus'' ''course'']"





section \<open>Properties\<close>

subsection \<open>Rounding to a double\<close>


lemma pow2_powi: "pow2 e = 2 powi e"
  by (simp add: pow2_def power_int_def inverse_eq_divide power_one_over)

lemma pow2_pos: "0 < pow2 e"
  by (simp add: pow2_powi)

lemma pow2_mono: "a \<le> b \<Longrightarrow> pow2 a \<le> pow2 b"
  by (simp add: pow2_powi power_int_increasing)

lemma pow2_nat: "0 \<le> e \<Longrightarrow> pow2 e = 2 ^ nat e"
  by (simp add: pow2_def)

lemma pow2_diff: "pow2 (a - b) = pow2 a / pow2 b"
  by (simp add: pow2_powi power_int_diff)

lemma bitlen_pow2_bounds:
  assumes "0 < a"
  shows "pow2 (bitlen a - 1) \<le> of_int a" and "of_int a < pow2 (bitlen a)"
proof -
  have la: "1 \<le> bitlen a" using assms by (simp add: bitlen_alt_def)
  have "(2::int) ^ nat (bitlen a - 1) \<le> a" using bitlen_bounds[OF assms] by simp
  then have "of_int ((2::int) ^ nat (bitlen a - 1)) \<le> (of_int a :: rat)"
    by (simp only: of_int_le_iff)
  then show "pow2 (bitlen a - 1) \<le> of_int a" using la by (simp add: pow2_nat)
  have "a < (2::int) ^ nat (bitlen a)" using bitlen_bounds[OF assms] by simp
  then have "(of_int a :: rat) < of_int ((2::int) ^ nat (bitlen a))"
    by (simp only: of_int_less_iff)
  then show "of_int a < pow2 (bitlen a)" using la by (simp add: pow2_nat)
qed

lemma ilog2_bounds:
  assumes "0 < q"
  shows "pow2 (ilog2 q) \<le> q \<and> q < pow2 (ilog2 q + 1)"
proof -
  obtain a b where ab: "quotient_of q = (a, b)" by force
  have b: "0 < b" using quotient_of_denom_pos[OF ab] .
  have q: "q = of_int a / of_int b" using quotient_of_div[OF ab] .
  have a: "0 < a" using assms b q by (simp add: zero_less_divide_iff)
  note A = bitlen_pow2_bounds[OF a] and B = bitlen_pow2_bounds[OF b]
  let ?k = "bitlen a - bitlen b"
  have "pow2 (bitlen a - 1) / pow2 (bitlen b) \<le> of_int a / of_int b"
    using A B a b by (intro frac_le) (auto simp: pow2_pos less_imp_le)
  then have lo: "pow2 (?k - 1) \<le> q"
    by (simp add: q pow2_diff[symmetric] algebra_simps)
  have "of_int a / of_int b < pow2 (bitlen a) / pow2 (bitlen b - 1)"
    using A B a b by (intro frac_less) (auto simp: pow2_pos less_imp_le)
  then have hi: "q < pow2 (?k + 1)"
    by (simp add: q pow2_diff[symmetric] algebra_simps)
  show ?thesis
    using lo hi ab by (auto simp: ilog2_def Let_def)
qed

lemma round_half_even_err: "\<bar>of_int (round_half_even x) - x\<bar> \<le> 1 / 2"
proof -
  have "of_int \<lfloor>x\<rfloor> \<le> x" "x < of_int \<lfloor>x\<rfloor> + 1" by linarith+
  then show ?thesis by (auto simp: round_half_even_def Let_def)
qed

lemma round_half_even_of_int: "round_half_even (of_int i) = i"
  by (simp add: round_half_even_def Let_def)

lemma pow2_less_iff: "pow2 a < pow2 b \<longleftrightarrow> a < b"
proof
  assume "pow2 a < pow2 b"
  then show "a < b" using pow2_mono[of b a] by (cases "a < b") auto
next
  assume "a < b"
  then show "pow2 a < pow2 b" by (simp add: pow2_powi power_int_strict_increasing)
qed

lemma ilog2_le: "0 < q \<Longrightarrow> q < pow2 b \<Longrightarrow> ilog2 q < b"
  using ilog2_bounds[of q] pow2_less_iff[of "ilog2 q" b] by linarith

lemma ilog2_ge: "0 < q \<Longrightarrow> pow2 a \<le> q \<Longrightarrow> a \<le> ilog2 q"
  using ilog2_bounds[of q] pow2_less_iff[of a "ilog2 q + 1"] by linarith

lemma abs_scale:
  fixes a q p :: rat
  assumes "0 < p"
  shows "\<bar>a - q / p\<bar> * p = \<bar>a * p - q\<bar>"
proof -
  have "\<bar>a - q / p\<bar> * p = \<bar>a - q / p\<bar> * \<bar>p\<bar>" using assms by simp
  also have "\<dots> = \<bar>(a - q / p) * p\<bar>" by (simp only: abs_mult)
  also have "(a - q / p) * p = a * p - q" using assms by (simp add: algebra_simps)
  finally show ?thesis .
qed

lemma fl_pos_err:
  assumes "0 < q" "- 1022 \<le> ilog2 q" "ilog2 q \<le> 1022"
  shows "\<exists>r. fl_pos q = Fin r \<and> \<bar>r - q\<bar> \<le> pow2 (ilog2 q - 53)"
proof -
  let ?e = "ilog2 q - 52"
  let ?m = "round_half_even (q / pow2 ?e)"
  have e: "max ?e (- 1074) = ?e" using assms by simp
  have eq: "fl_pos q = Fin (of_int ?m * pow2 ?e)"
    using assms by (simp add: fl_pos_def Let_def e)
  have "\<bar>of_int ?m - q / pow2 ?e\<bar> \<le> 1 / 2" by (rule round_half_even_err)
  then have "\<bar>of_int ?m - q / pow2 ?e\<bar> * pow2 ?e \<le> 1 / 2 * pow2 ?e"
    using pow2_pos[of ?e] by (simp only: mult_le_cancel_right_pos)
  moreover have "\<bar>of_int ?m - q / pow2 ?e\<bar> * pow2 ?e = \<bar>of_int ?m * pow2 ?e - q\<bar>"
    by (rule abs_scale[OF pow2_pos])
  moreover have "1 / 2 * pow2 ?e = pow2 (ilog2 q - 53)"
    using pow2_diff[of ?e 1] by (simp add: pow2_def)
  ultimately have "\<bar>of_int ?m * pow2 ?e - q\<bar> \<le> pow2 (ilog2 q - 53)" by simp
  with eq show ?thesis by blast
qed

lemma fl_of_nat_exact:
  assumes "n < 2 ^ 53"
  shows "fl (of_nat n) = Fin (of_nat n)"
proof (cases "n = 0")
  case True
  then show ?thesis by (simp add: fl_def)
next
  case False
  let ?q = "of_nat n :: rat"
  have q: "0 < ?q" using False by simp
  have "pow2 0 \<le> ?q" using False by (simp add: pow2_def)
  then have k0: "0 \<le> ilog2 ?q" using ilog2_ge q by blast
  have "?q < of_nat (2 ^ 53)" using assms by (simp only: of_nat_less_iff)
  then have "?q < pow2 53" by (simp add: pow2_def)
  then have k1: "ilog2 ?q < 53" using ilog2_le q by blast
  let ?e = "ilog2 ?q - 52"
  let ?s = "nat (52 - ilog2 ?q)"
  have pe: "pow2 ?e = 1 / 2 ^ ?s"
    using k1 by (cases "ilog2 ?q = 52") (simp_all add: pow2_def)
  have "?q / pow2 ?e = of_int (int n * 2 ^ ?s)" by (simp add: pe)
  then have m: "round_half_even (?q / pow2 ?e) = int n * 2 ^ ?s"
    by (simp only: round_half_even_of_int)
  have e: "max ?e (- 1074) = ?e" using k0 by simp
  have "fl_pos ?q = Fin (of_int (int n * 2 ^ ?s) * pow2 ?e)"
    using k0 k1 by (simp add: fl_pos_def Let_def m e)
  also have "of_int (int n * 2 ^ ?s) * pow2 ?e = ?q" by (simp add: pe)
  finally show ?thesis using q by (simp add: fl_def)
qed

lemma above_half_integer:
  fixes A T C :: rat
  assumes "0 < T" "(2 * A + 1) * T + 1 \<le> 200 * C"
  shows "A + 1 / 2 + 1 / (2 * T) \<le> 100 * C / T"
proof -
  have "A + 1 / 2 + 1 / (2 * T) = ((2 * A + 1) * T + 1) / (2 * T)"
    using assms(1) by (simp add: field_simps)
  also have "\<dots> \<le> (200 * C) / (2 * T)"
    using assms by (intro divide_right_mono) auto
  also have "\<dots> = 100 * C / T" by simp
  finally show ?thesis .
qed

lemma below_half_integer:
  fixes A T C :: rat
  assumes "0 < T" "200 * C + 1 \<le> (2 * A - 1) * T"
  shows "100 * C / T + 1 / (2 * T) \<le> A - 1 / 2"
proof -
  have "100 * C / T + 1 / (2 * T) = (200 * C + 1) / (2 * T)"
    using assms(1) by (simp add: field_simps)
  also have "\<dots> \<le> ((2 * A - 1) * T) / (2 * T)"
    using assms by (intro divide_right_mono) auto
  also have "\<dots> = A - 1 / 2" using assms(1) by (simp add: field_simps)
  finally show ?thesis .
qed

lemma half_integer_gap:
  fixes c t :: nat and k :: int and z :: rat
  assumes t: "0 < t" "t < 2 ^ 44"
    and z: "\<bar>z - 100 * of_nat c / of_nat t\<bar> < pow2 (- 45)"
  shows "\<bar>of_int \<lfloor>z + 1 / 2\<rfloor> - (100 * of_nat c / of_nat t :: rat)\<bar> \<le> 1 / 2"
proof -
  let ?X = "100 * of_nat c / of_nat t :: rat"
  let ?k = "\<lfloor>z + 1 / 2\<rfloor>"
  have tpos: "(0::rat) < of_nat t" using t by simp
  have "(of_nat t :: rat) < of_nat (2 ^ 44)" using t by (simp only: of_nat_less_iff)
  then have t45: "2 * (of_nat t :: rat) < 2 ^ 45" by simp
  have gap: "pow2 (- 45) < 1 / (2 * of_nat t)"
    using t45 tpos by (simp add: pow2_def field_simps)
  have kz: "of_int ?k \<le> z + 1 / 2" "z + 1 / 2 < of_int ?k + 1" by linarith+
  have X: "?X * of_nat t = 100 * of_nat c" using tpos by simp
  show ?thesis
  proof (rule ccontr)
    assume "\<not> ?thesis"
    then consider (lo) "?X < of_int ?k - 1 / 2" | (hi) "of_int ?k + 1 / 2 < ?X" by linarith
    then show False
    proof cases
      case lo
      then have "?X * (2 * of_nat t) < (of_int ?k - 1 / 2) * (2 * of_nat t)"
        using tpos by (simp only: mult_less_cancel_right_pos) 
      then have "(of_int (200 * int c) :: rat) < of_int ((2 * ?k - 1) * int t)"
        using tpos by (simp add: algebra_simps)
      then have "200 * int c < (2 * ?k - 1) * int t" by (simp only: of_int_less_iff)
      then have "200 * int c + 1 \<le> (2 * ?k - 1) * int t" by simp
      then have "(of_int (200 * int c + 1) :: rat) \<le> of_int ((2 * ?k - 1) * int t)"
        by (simp only: of_int_le_iff)
      then have "200 * of_nat c + 1 \<le> (2 * of_int ?k - 1) * (of_nat t :: rat)"
        by simp
      then have "?X + 1 / (2 * of_nat t) \<le> of_int ?k - 1 / 2"
        by (rule below_half_integer[OF tpos])
      with kz z gap show False by linarith
    next
      case hi
      then have "(of_int ?k + 1 / 2) * (2 * of_nat t) < ?X * (2 * of_nat t)"
        using tpos by (simp only: mult_less_cancel_right_pos)
      then have "(of_int ((2 * ?k + 1) * int t) :: rat) < of_int (200 * int c)"
        using tpos by (simp add: algebra_simps)
      then have "(2 * ?k + 1) * int t < 200 * int c" by (simp only: of_int_less_iff)
      then have "(2 * ?k + 1) * int t + 1 \<le> 200 * int c" by simp
      then have "(of_int ((2 * ?k + 1) * int t + 1) :: rat) \<le> of_int (200 * int c)"
        by (simp only: of_int_le_iff)
      then have "(2 * of_int ?k + 1) * (of_nat t :: rat) + 1 \<le> 200 * of_nat c"
        by simp
      then have "of_int ?k + 1 / 2 + 1 / (2 * of_nat t) \<le> ?X"
        by (rule above_half_integer[OF tpos])
      with kz z gap show False by linarith
    qed
  qed
qed

lemma percentage_nearest:
  fixes c t :: nat
  assumes s: "total s = Val t" "completed s = Val c"
    and t: "0 < t" "t < 2 ^ 44" and c: "c \<le> t"
  shows "\<exists>k. percentage s = Fin (of_int k)
           \<and> \<bar>of_int k - (100 * of_nat c / of_nat t :: rat)\<bar> \<le> 1 / 2"
proof -
  define x :: rat where "x = of_nat c / of_nat t"
  have ft: "fl (of_nat t) = Fin (of_nat t)" using t by (intro fl_of_nat_exact) simp
  have fc: "fl (of_nat c) = Fin (of_nat c)" using t c by (intro fl_of_nat_exact) simp
  have P: "percentage s = Math_round (js_mul (fl x) (Fin 100))"
    using t s by (simp add: percentage_def ft fc x_def)
  show ?thesis
  proof (cases "c = 0")
    case True
    have "\<lfloor>1 / 2 :: rat\<rfloor> = 0" by (rule floor_unique) simp_all
    with True have "percentage s = Fin (of_int 0)"
      unfolding P x_def by (simp add: fl_def)
    moreover have "\<bar>of_int 0 - (100 * of_nat c / of_nat t :: rat)\<bar> \<le> 1 / 2"
      using True by simp
    ultimately show ?thesis by blast
  next
    case False
    have tpos: "(0::rat) < of_nat t" using t by simp
    have x0: "0 < x" using False tpos by (simp add: x_def)
    have x1: "x \<le> 1" using c tpos by (simp add: x_def)
    have "(of_nat t :: rat) < of_nat (2 ^ 44)" using t by (simp only: of_nat_less_iff)
    then have t44: "(of_nat t :: rat) < 17592186044416" by simp
    have b: "1 / (of_nat t :: rat) \<le> x" using False tpos by (simp add: x_def divide_right_mono)
    have a: "1 / 17592186044416 < 1 / (of_nat t :: rat)" using t44 tpos by (simp add: field_simps)
    have xlo: "1 / 17592186044416 \<le> x" by (rule less_imp_le[OF less_le_trans[OF a b]])
    have p44: "pow2 (- 44) = 1 / 17592186044416" by (simp add: pow2_def)
    have p53: "pow2 (- 53) = 1 / 9007199254740992" by (simp add: pow2_def)
    have p47: "pow2 (- 47) = 1 / 140737488355328" by (simp add: pow2_def)
    have p45: "pow2 (- 45) = 1 / 35184372088832" by (simp add: pow2_def)
    have p40: "pow2 (- 40) = 1 / 1099511627776" by (simp add: pow2_def)
    have p1: "pow2 1 = 2" and p7: "pow2 7 = 128" by (simp_all add: pow2_def)
    have "x < pow2 1" using x1 unfolding p1 by linarith
    then have kx1: "ilog2 x < 1" using ilog2_le x0 by blast
    have "pow2 (- 44) \<le> x" using xlo unfolding p44 .
    then have kx0: "- 44 \<le> ilog2 x" using ilog2_ge x0 by blast
    obtain y where y: "fl_pos x = Fin y" "\<bar>y - x\<bar> \<le> pow2 (ilog2 x - 53)"
      using fl_pos_err[OF x0] kx0 kx1 by auto
    have "pow2 (ilog2 x - 53) \<le> pow2 (- 53)" using kx1 by (intro pow2_mono) simp
    then have yx: "\<bar>y - x\<bar> \<le> 1 / 9007199254740992" using y(2) unfolding p53 by linarith
    have y0: "0 < y * 100" using yx xlo by linarith
    have "y * 100 < pow2 7" using yx x1 unfolding p7 by linarith
    then have ky1: "ilog2 (y * 100) < 7" using ilog2_le y0 by blast
    have "pow2 (- 40) \<le> y * 100" using yx xlo unfolding p40 by linarith
    then have ky0: "- 40 \<le> ilog2 (y * 100)" using ilog2_ge y0 by blast
    obtain z where z: "fl_pos (y * 100) = Fin z" "\<bar>z - y * 100\<bar> \<le> pow2 (ilog2 (y * 100) - 53)"
      using fl_pos_err[OF y0] ky0 ky1 by auto
    have "pow2 (ilog2 (y * 100) - 53) \<le> pow2 (- 47)" using ky1 by (intro pow2_mono) simp
    then have zy: "\<bar>z - y * 100\<bar> \<le> 1 / 140737488355328" using z(2) unfolding p47 by linarith
    have "\<bar>z - 100 * x\<bar> < pow2 (- 45)" using zy yx unfolding p45 by linarith
    then have zx: "\<bar>z - 100 * of_nat c / of_nat t\<bar> < pow2 (- 45)" by (simp add: x_def)
    have y0': "0 < y" using y0 by linarith
    have "percentage s = Fin (of_int \<lfloor>z + 1 / 2\<rfloor>)"
      using x0 y0 y0' y z by (simp add: P fl_def)
    with half_integer_gap[OF t zx] show ?thesis by blast
  qed
qed

subsection \<open>The completion percentage\<close>


lemma percentage_zero_total: "total s = Val 0 \<Longrightarrow> percentage s = Fin 0"
  by (simp add: percentage_def fl_def)

lemma percentage_not_tie:
  assumes s: "total s = Val t" "completed s = Val c"
    and t: "0 < t" "t < 2 ^ 44" and c: "c \<le> t"
    and tie: "frac (100 * of_nat c / of_nat t :: rat) \<noteq> 1 / 2"
  shows "percentage s = Fin (of_int (round (100 * of_nat c / of_nat t :: rat)))"
proof -
  let ?X = "100 * of_nat c / of_nat t :: rat"
  obtain k where k: "percentage s = Fin (of_int k)" "\<bar>of_int k - ?X\<bar> \<le> 1 / 2"
    using percentage_nearest[OF s t c] by blast
  have "\<bar>?X - of_int k\<bar> \<noteq> 1 / 2"
  proof
    assume "\<bar>?X - of_int k\<bar> = 1 / 2"
    then consider "?X = of_int k + 1 / 2" | "?X = of_int (k - 1) + 1 / 2" by (auto simp: abs_if split: if_splits)
    then have "frac ?X = 1 / 2"
    proof cases
      case 1
      then have "?X - 1 / 2 = of_int k" by simp
      then have "?X - 1 / 2 \<in> \<int>" by (simp only: Ints_of_int)
      then show ?thesis by (intro iffD2[OF frac_unique_iff]) simp
    next
      case 2
      then have "?X - 1 / 2 = of_int (k - 1)" by simp
      then have "?X - 1 / 2 \<in> \<int>" by (simp only: Ints_of_int)
      then show ?thesis by (intro iffD2[OF frac_unique_iff]) simp
    qed
    with tie show False by simp
  qed
  with k(2) have "\<bar>?X - of_int k\<bar> < 1 / 2" by linarith
  then have "round ?X = k" by (rule round_unique')
  with k(1) show ?thesis by simp
qed

lemma percentage_4_1: "percentage \<lparr>total = Val 4, completed = Val 1, in_progress = p\<rparr> = Fin 25"
proof -
  have "js_gt (fl 4) (Fin 0)" by code_simp
  moreover have "Math_round (js_mul (js_div (fl 1) (fl 4)) (Fin 100)) = Fin 25" by code_simp
  ultimately show ?thesis by (simp add: percentage_def)
qed

text \<open>
  Claim C5, as amended. The percentage is 0 when the total is 0 (nothing is divided).
  Otherwise it is \<^verbatim>\<open>Math.round\<close> of the double \<^verbatim>\<open>(completed / total) * 100\<close>: for
  counts with \<open>completed \<le> total < 2 ^ 44\<close> an integer within one half of the exact
  percentage, and the exact percentage rounded whenever that is not halfway between two
  integers. \<open>{total: 4, completed: 1}\<close> gives 25, and the value is the number shown in
  the markup.
\<close>

theorem completion_percentage:
  "(total s = Val 0 \<longrightarrow> percentage s = Fin 0)
   \<and> (total s = Val t \<and> completed s = Val c \<and> 0 < t \<and> t < 2 ^ 44 \<and> c \<le> t \<longrightarrow>
        (\<exists>k. percentage s = Fin (of_int k)
               \<and> \<bar>of_int k - (100 * of_nat c / of_nat t :: rat)\<bar> \<le> 1 / 2)
        \<and> (frac (100 * of_nat c / of_nat t :: rat) \<noteq> 1 / 2 \<longrightarrow>
             percentage s = Fin (of_int (round (100 * of_nat c / of_nat t :: rat)))))
   \<and> percentage \<lparr>total = Val 4, completed = Val 1, in_progress = p\<rparr> = Fin 25
   \<and> displayProgressSummary_html (Val s)
       = Inr (summary_template (show_count (total s)) (show_count (completed s))
                (show_count (in_progress s)) [Number (percentage s)])"
  using percentage_zero_total[of s] percentage_nearest[of s t c] percentage_not_tie[of s t c]
    percentage_4_1[of p]
  by (simp add: displayProgressSummary_html_def and_then_def)

theorem completion_percentage_witness:
  "percentage \<lparr>total = Val 0, completed = Val 5, in_progress = Val 0\<rparr> = Fin 0
   \<and> (0::nat) < 40 \<and> (40::nat) < 2 ^ 44 \<and> (23::nat) \<le> 40
   \<and> (\<exists>k. percentage \<lparr>total = Val 40, completed = Val 23, in_progress = Val 0\<rparr> = Fin (of_int k)
           \<and> \<bar>of_int k - (100 * of_nat 23 / of_nat 40 :: rat)\<bar> \<le> 1 / 2)
   \<and> frac (100 * of_nat 1 / of_nat 3 :: rat) \<noteq> 1 / 2
   \<and> percentage \<lparr>total = Val 3, completed = Val 1, in_progress = Val 0\<rparr>
       = Fin (of_int (round (100 * of_nat 1 / of_nat 3 :: rat)))"
proof -
  have "frac (100 / 3 :: rat) = 1 / 3"
    by (intro iffD2[OF frac_unique_iff]) simp
  then have f: "frac (100 * of_nat 1 / of_nat 3 :: rat) \<noteq> 1 / 2"
    by simp
  show ?thesis
    using completion_percentage[of "\<lparr>total = Val 0, completed = Val 5, in_progress = Val 0\<rparr>"]
      completion_percentage[of "\<lparr>total = Val 40, completed = Val 23, in_progress = Val 0\<rparr>" 40 23]
      completion_percentage[of "\<lparr>total = Val 3, completed = Val 1, in_progress = Val 0\<rparr>" 3 1]
      f
    by simp
qed

text \<open>
  As stated, C5 makes the percentage the rounded value of \<open>completed / total * 100\<close>.
  For 23 of 40 that value is 57.5, which rounds to 58, but the double product is
  57.49999999999999 and the page shows 57.
\<close>

theorem completion_percentage_tie_counterexample:
  "percentage \<lparr>total = Val 40, completed = Val 23, in_progress = Val 0\<rparr> = Fin 57
   \<and> round (of_nat 23 / of_nat 40 * 100 :: rat) = 58"
  by code_simp

subsection \<open>The onboarding submission\<close>


lemma trace_emit: "trace (emit e w) = trace w @ [e]"
  by (simp add: emit_def)

lemma app_emit: "app (emit e w) = app w"
  by (simp add: emit_def)

lemma trace_set_currentUser: "trace (set_currentUser u w) = trace w"
  by (simp add: set_currentUser_def)

lemma app_set_currentUser: "app (set_currentUser u w) = (app w)\<lparr>currentUser := Some u\<rparr>"
  by (simp add: set_currentUser_def)

lemma added_append: "trace w' = trace w @ es \<Longrightarrow> added w w' = es"
  by (simp add: added_def)

lemma requests_simps:
  "requests [] = []"
  "requests (Fetch r # es) = r # requests es"
  "requests (ShowLoading # es) = requests es"
  "requests (HideLoading # es) = requests es"
  "requests (ConsoleError e # es) = requests es"
  "requests (ShowToast m t # es) = requests es"
  "requests (ShowStatusMessage i msg t # es) = requests es"
  "requests (SetTimeout a n # es) = requests es"
  by (simp_all add: requests_def)

lemmas world_simps = trace_emit app_emit trace_set_currentUser app_set_currentUser

lemma submit_register_fails:
  assumes "register_step r (data_email d) = Inl e"
  shows "trace (submit (Inr d) r w) = trace w @
           [ShowLoading, Fetch (Register (data_email d) (data_name d)), HideLoading,
            ConsoleError e, ShowToast ''Error during onboarding. Please try again.'' ''error'',
            ShowStatusMessage ''onboarding-status'' (MessageOf e) ''error'']"
    and "app (submit (Inr d) r w) = app w"
  using assms by (simp_all add: submit_def submit_try_def submit_catch_def Let_def world_simps)

lemma submit_onboard_fails:
  assumes "register_step r (data_email d) = Inr userId" and "onboard_step r = Inl e"
  shows "trace (submit (Inr d) r w) = trace w @
           [ShowLoading, Fetch (Register (data_email d) (data_name d)),
            Fetch (Onboard userId d), HideLoading,
            ConsoleError e, ShowToast ''Error during onboarding. Please try again.'' ''error'',
            ShowStatusMessage ''onboarding-status'' (MessageOf e) ''error'']"
    and "app (submit (Inr d) r w) = app w"
  using assms by (simp_all add: submit_def submit_try_def submit_catch_def Let_def world_simps)

lemma submit_generate_fails:
  assumes "register_step r (data_email d) = Inr userId" and "onboard_step r = Inr u"
    and "generate_step r = Inl e"
  shows "trace (submit (Inr d) r w) = trace w @
           [ShowLoading, Fetch (Register (data_email d) (data_name d)),
            Fetch (Onboard userId d),
            Fetch (Generate userId (js_mul (data_planning_horizon_years d) (Fin 12))),
            HideLoading,
            ConsoleError e, ShowToast ''Error during onboarding. Please try again.'' ''error'',
            ShowStatusMessage ''onboarding-status'' (MessageOf e) ''error'']"
    and "app (submit (Inr d) r w) = (app w)\<lparr>currentUser := Some \<lparr>user_id = userId, user_data = d\<rparr>\<rparr>"
  using assms by (simp_all add: submit_def submit_try_def submit_catch_def Let_def world_simps)

lemma submit_succeeds:
  assumes "register_step r (data_email d) = Inr userId" and "onboard_step r = Inr u"
    and "generate_step r = Inr v"
  shows "trace (submit (Inr d) r w) = trace w @
           [ShowLoading, Fetch (Register (data_email d) (data_name d)),
            Fetch (Onboard userId d),
            Fetch (Generate userId (js_mul (data_planning_horizon_years d) (Fin 12))),
            HideLoading, ShowToast onboarding_success_toast ''success'',
            ShowStatusMessage ''onboarding-status'' (Text onboarding_success_status) ''success'',
            SetTimeout (ClickNav ''roadmap'') 2000]"
    and "app (submit (Inr d) r w) = (app w)\<lparr>currentUser := Some \<lparr>user_id = userId, user_data = d\<rparr>\<rparr>"
  using assms by (simp_all add: submit_def submit_try_def submit_success_def Let_def world_simps)

lemma submit_cong:
  assumes "register_step r (data_email d) = register_step r' (data_email d)"
    and "onboard_step r = onboard_step r'" and "generate_step r = generate_step r'"
  shows "submit (Inr d) r w = submit (Inr d) r' w"
  using assms by (simp add: submit_def submit_try_def Let_def split: sum.splits)

lemma submit_sends_onboard:
  assumes "register_step r (data_email d) = Inr userId"
  shows "\<exists>rest. requests (added w (submit (Inr d) r w))
           = Register (data_email d) (data_name d) # Onboard userId d # rest"
proof (cases "onboard_step r")
  case (Inl e)
  show ?thesis
    by (simp add: added_append[OF submit_onboard_fails(1)[OF assms Inl]] requests_simps)
next
  case (Inr u)
  show ?thesis
  proof (cases "generate_step r")
    case (Inl e)
    show ?thesis
      by (simp add: added_append[OF submit_generate_fails(1)[OF assms Inr Inl]] requests_simps)
  next
    case (Inr v)
    show ?thesis
      by (simp add: added_append[OF submit_succeeds(1)[OF assms \<open>onboard_step r = Inr u\<close> Inr]]
            requests_simps)
  qed
qed

lemma example_steps:
  "register_step register_fails email = Inl (Error ''Failed to register user'')"
  "register_step onboard_fails email = Inr 7"
  "onboard_step onboard_fails = Inl (Error ''Failed to complete onboarding'')"
  "register_step generate_fails email = Inr 7"
  "onboard_step generate_fails = Inr ()"
  "generate_step generate_fails = Inl (Error ''Failed to generate growth path'')"
  "register_step already_registered email = Inr 1"
  "onboard_step already_registered = Inr ()"
  "generate_step already_registered = Inr ()"
  by (simp_all add: register_step_def onboard_step_def generate_step_def register_fails_def
        onboard_fails_def generate_fails_def already_registered_def reply_def ok_def
        registered_def conflict_body_def resolve_userId_def and_then_def optional_user_id_def
        getUserIdByEmail_def)

lemma timeline_example: "fl 24 = Fin 24"
  by code_simp

lemma example_fields:
  "data_email example_data = Val ''a@x.com''"
  "data_name example_data = Val ''Asha''"
  "data_planning_horizon_years example_data = Fin 2"
  "app initial_world = initial_AppState"
  "currentUser initial_AppState = None"
  by (simp_all add: example_data_def initial_world_def initial_AppState_def)

lemma register_step_fallback:
  assumes "reply_register r = Resolved registerResponse"
    and "response_status registerResponse = 409"
    and "response_json registerResponse = Parsed (Val body)"
    and "\<not> truthy_id (optional_user_id body)"
  shows "register_step r email = Inr (getUserIdByEmail email)"
  using assms
  by (cases "optional_user_id body")
     (simp_all add: register_step_def resolve_userId_def and_then_def)

lemma register_step_named:
  assumes "reply_register r = Resolved registerResponse"
    and "response_status registerResponse = 409"
    and "response_json registerResponse = Parsed (Val body)"
    and "optional_user_id body = Val n" and "n \<noteq> 0"
  shows "register_step r email = Inr n"
  using assms by (simp add: register_step_def resolve_userId_def and_then_def)

lemma register_step_unparsed:
  assumes "reply_register r = Resolved registerResponse"
    and "response_status registerResponse = 409"
  shows "response_json registerResponse = InvalidJSON \<Longrightarrow> register_step r email = Inl SyntaxError"
    and "response_json registerResponse = Parsed Null \<Longrightarrow> register_step r email = Inl TypeError"
    and "response_json registerResponse = Parsed Absent \<Longrightarrow> register_step r email = Inl TypeError"
  using assms by (simp_all add: register_step_def resolve_userId_def and_then_def)

lemma register_step_fresh:
  assumes "n \<noteq> 0"
  shows "register_step (r\<lparr>reply_register := reply 201 (registered n)\<rparr>) email = Inr n"
  using assms
  by (simp add: register_step_def reply_def ok_def registered_def resolve_userId_def
        and_then_def optional_user_id_def)

lemma submit_as_fresh:
  assumes "register_step r (data_email d) = Inr n" and "n \<noteq> 0"
  shows "submit (Inr d) r w = submit (Inr d) (r\<lparr>reply_register := reply 201 (registered n)\<rparr>) w"
  by (rule submit_cong)
     (simp_all add: assms register_step_fresh onboard_step_def generate_step_def)

lemma submit_currentUser:
  assumes "register_step r (data_email d) = Inr userId" and "onboard_step r = Inr u"
  shows "currentUser (app (submit (Inr d) r w)) = Some \<lparr>user_id = userId, user_data = d\<rparr>"
proof (cases "generate_step r")
  case (Inl e)
  show ?thesis by (simp add: submit_generate_fails(2)[OF assms Inl])
next
  case (Inr v)
  show ?thesis by (simp add: submit_succeeds(2)[OF assms Inr])
qed

lemma conflict_examples:
  "reply_register already_registered
     = Resolved \<lparr>response_status = 409, response_json = Parsed (Val \<lparr>register_user = Absent\<rparr>)\<rparr>"
  "reply_register conflict_names_user
     = Resolved \<lparr>response_status = 409,
          response_json = Parsed (Val \<lparr>register_user = Val \<lparr>user_ref_id = Val 42\<rparr>\<rparr>)\<rparr>"
  "reply_register conflict_not_json
     = Resolved \<lparr>response_status = 409, response_json = InvalidJSON\<rparr>"
  "reply_register conflict_null
     = Resolved \<lparr>response_status = 409, response_json = Parsed Null\<rparr>"
  "onboard_step conflict_names_user = Inr ()"
  by (simp_all add: already_registered_def conflict_names_user_def conflict_not_json_def
        conflict_null_def reply_def conflict_body_def registered_def onboard_step_def ok_def)

lemma conflict_bodies:
  "\<not> truthy_id (optional_user_id \<lparr>register_user = Absent\<rparr>)"
  "optional_user_id \<lparr>register_user = Val \<lparr>user_ref_id = Val 42\<rparr>\<rparr> = Val 42"
  by (simp_all add: optional_user_id_def)

text \<open>
  Claim C1, as amended. When one of the three steps of an onboarding submission raises,
  no later request is sent and the failure is shown (the error toast and the status line
  with the exception's message). The session state is what it was before the submission
  when the failing step is register-user or complete-onboarding; when it is
  generate-roadmap, \<^verbatim>\<open>currentUser\<close> has already been set to the new identity.
\<close>

theorem submit_failure_aborts:
  "(register_step r (data_email d) = Inl e \<longrightarrow>
      requests (added w (submit (Inr d) r w)) = [Register (data_email d) (data_name d)]
      \<and> failure_shown e (added w (submit (Inr d) r w))
      \<and> app (submit (Inr d) r w) = app w)
   \<and> (register_step r (data_email d) = Inr userId \<and> onboard_step r = Inl e \<longrightarrow>
      requests (added w (submit (Inr d) r w))
        = [Register (data_email d) (data_name d), Onboard userId d]
      \<and> failure_shown e (added w (submit (Inr d) r w))
      \<and> app (submit (Inr d) r w) = app w)
   \<and> (register_step r (data_email d) = Inr userId \<and> onboard_step r = Inr u
        \<and> generate_step r = Inl e \<longrightarrow>
      requests (added w (submit (Inr d) r w))
        = [Register (data_email d) (data_name d), Onboard userId d,
           Generate userId (js_mul (data_planning_horizon_years d) (Fin 12))]
      \<and> failure_shown e (added w (submit (Inr d) r w))
      \<and> app (submit (Inr d) r w)
          = (app w)\<lparr>currentUser := Some \<lparr>user_id = userId, user_data = d\<rparr>\<rparr>)"
proof (intro conjI impI)
  assume a: "register_step r (data_email d) = Inl e"
  note t = added_append[OF submit_register_fails(1)[OF a]]
  show "requests (added w (submit (Inr d) r w)) = [Register (data_email d) (data_name d)]"
    by (simp add: t requests_simps)
  show "failure_shown e (added w (submit (Inr d) r w))"
    by (simp add: t failure_shown_def)
  show "app (submit (Inr d) r w) = app w" by (rule submit_register_fails(2)[OF a])
next
  assume "register_step r (data_email d) = Inr userId \<and> onboard_step r = Inl e"
  then have a: "register_step r (data_email d) = Inr userId" and b: "onboard_step r = Inl e"
    by simp_all
  note t = added_append[OF submit_onboard_fails(1)[OF a b]]
  show "requests (added w (submit (Inr d) r w))
          = [Register (data_email d) (data_name d), Onboard userId d]"
    by (simp add: t requests_simps)
  show "failure_shown e (added w (submit (Inr d) r w))"
    by (simp add: t failure_shown_def)
  show "app (submit (Inr d) r w) = app w" by (rule submit_onboard_fails(2)[OF a b])
next
  assume "register_step r (data_email d) = Inr userId \<and> onboard_step r = Inr u
            \<and> generate_step r = Inl e"
  then have a: "register_step r (data_email d) = Inr userId" and b: "onboard_step r = Inr u"
    and c: "generate_step r = Inl e"
    by simp_all
  note t = added_append[OF submit_generate_fails(1)[OF a b c]]
  show "requests (added w (submit (Inr d) r w))
          = [Register (data_email d) (data_name d), Onboard userId d,
             Generate userId (js_mul (data_planning_horizon_years d) (Fin 12))]"
    by (simp add: t requests_simps)
  show "failure_shown e (added w (submit (Inr d) r w))"
    by (simp add: t failure_shown_def)
  show "app (submit (Inr d) r w)
          = (app w)\<lparr>currentUser := Some \<lparr>user_id = userId, user_data = d\<rparr>\<rparr>"
    by (rule submit_generate_fails(2)[OF a b c])
qed

theorem submit_failure_aborts_witness:
  "register_step register_fails (data_email example_data) = Inl (Error ''Failed to register user'')
   \<and> requests (added initial_world (submit (Inr example_data) register_fails initial_world))
       = [Register (Val ''a@x.com'') (Val ''Asha'')]
   \<and> currentUser (app (submit (Inr example_data) register_fails initial_world)) = None
   \<and> register_step onboard_fails (data_email example_data) = Inr 7
   \<and> onboard_step onboard_fails = Inl (Error ''Failed to complete onboarding'')
   \<and> requests (added initial_world (submit (Inr example_data) onboard_fails initial_world))
       = [Register (Val ''a@x.com'') (Val ''Asha''), Onboard 7 example_data]
   \<and> currentUser (app (submit (Inr example_data) onboard_fails initial_world)) = None
   \<and> register_step generate_fails (data_email example_data) = Inr 7
   \<and> onboard_step generate_fails = Inr ()
   \<and> generate_step generate_fails = Inl (Error ''Failed to generate growth path'')
   \<and> requests (added initial_world (submit (Inr example_data) generate_fails initial_world))
       = [Register (Val ''a@x.com'') (Val ''Asha''), Onboard 7 example_data, Generate 7 (Fin 24)]
   \<and> failure_shown (Error ''Failed to generate growth path'')
         (added initial_world (submit (Inr example_data) generate_fails initial_world))"
  using submit_failure_aborts[of register_fails example_data "Error ''Failed to register user''"
          initial_world 0 "()"]
        submit_failure_aborts[of onboard_fails example_data "Error ''Failed to complete onboarding''"
          initial_world 7 "()"]
        submit_failure_aborts[of generate_fails example_data "Error ''Failed to generate growth path''"
          initial_world 7 "()"]
  by (simp add: example_steps example_fields timeline_example)

text \<open>
  As stated, C1 also leaves \<^verbatim>\<open>currentUser\<close> unset when roadmap generation fails; here
  it starts as \<^verbatim>\<open>null\<close> and ends as user 7.
\<close>

theorem submit_sets_identity_counterexample:
  "generate_step generate_fails = Inl (Error ''Failed to generate growth path'')
   \<and> currentUser (app initial_world) = None
   \<and> currentUser (app (submit (Inr example_data) generate_fails initial_world))
       = Some \<lparr>user_id = 7, user_data = example_data\<rparr>"
  by (simp add: example_steps example_fields
        submit_generate_fails(2)[OF example_steps(4) example_steps(5) example_steps(6)])

text \<open>
  Claim C2. When register-user and complete-onboarding succeed and generate-roadmap fails,
  the world handed to the \<^verbatim>\<open>catch\<close> block has \<^verbatim>\<open>currentUser\<close> set, with the
  identifier that the registration step resolved.
\<close>

theorem identity_set_when_generate_fails:
  assumes "register_step r (data_email d) = Inr userId"
    and "onboard_step r = Inr u"
    and "generate_step r = Inl e"
  shows "\<exists>w'. submit_try (Inr d) r (emit ShowLoading w) = (w', Some e)
           \<and> currentUser (app w') = Some \<lparr>user_id = userId, user_data = d\<rparr>
           \<and> submit (Inr d) r w = submit_catch e w'"
  using assms by (simp add: submit_def submit_try_def Let_def world_simps)

theorem identity_set_when_generate_fails_witness:
  "register_step generate_fails (data_email example_data) = Inr 7
   \<and> onboard_step generate_fails = Inr ()
   \<and> generate_step generate_fails = Inl (Error ''Failed to generate growth path'')
   \<and> (\<exists>w'. submit_try (Inr example_data) generate_fails (emit ShowLoading initial_world)
               = (w', Some (Error ''Failed to generate growth path''))
           \<and> currentUser (app w') = Some \<lparr>user_id = 7, user_data = example_data\<rparr>
           \<and> submit (Inr example_data) generate_fails initial_world
               = submit_catch (Error ''Failed to generate growth path'') w')"
  using identity_set_when_generate_fails[OF example_steps(4) example_steps(5) example_steps(6),
          of example_data initial_world]
  by (simp add: example_steps)

text \<open>
  Claim C6, as amended. A registration answered with status 409 does not always let the
  submission proceed; what happens depends on the body of the reply.
  \<^item> The body parses to an object without a truthy \<^verbatim>\<open>user.id\<close>: the identifier comes
    from \<open>getUserIdByEmail\<close>, the complete-onboarding request is sent with it, and the
    whole submission runs as it does after a fresh registration (status 201) that returns
    this identifier.
  \<^item> The body parses to an object with a truthy \<^verbatim>\<open>user.id\<close>: the same holds with this
    identifier, and the fallback lookup is not used.
  \<^item> The body is not JSON, or is \<^verbatim>\<open>null\<close>: the submission aborts after the register
    request, shows the failure (a SyntaxError, a TypeError) and leaves the session state
    as it was.
\<close>

theorem conflict_reply_outcomes:
  assumes "reply_register r = Resolved registerResponse"
    and "response_status registerResponse = 409"
  shows "(response_json registerResponse = Parsed (Val body)
            \<and> \<not> truthy_id (optional_user_id body) \<longrightarrow>
          register_step r (data_email d) = Inr (getUserIdByEmail (data_email d))
          \<and> (\<exists>rest. requests (added w (submit (Inr d) r w))
                 = Register (data_email d) (data_name d)
                   # Onboard (getUserIdByEmail (data_email d)) d # rest)
          \<and> submit (Inr d) r w
              = submit (Inr d)
                  (r\<lparr>reply_register
                       := reply 201 (registered (getUserIdByEmail (data_email d)))\<rparr>) w)
         \<and> (response_json registerResponse = Parsed (Val body)
              \<and> optional_user_id body = Val n \<and> n \<noteq> 0 \<longrightarrow>
            register_step r (data_email d) = Inr n
            \<and> (\<exists>rest. requests (added w (submit (Inr d) r w))
                   = Register (data_email d) (data_name d) # Onboard n d # rest)
            \<and> submit (Inr d) r w
                = submit (Inr d) (r\<lparr>reply_register := reply 201 (registered n)\<rparr>) w)
         \<and> (response_json registerResponse = InvalidJSON \<longrightarrow>
            register_step r (data_email d) = Inl SyntaxError
            \<and> requests (added w (submit (Inr d) r w)) = [Register (data_email d) (data_name d)]
            \<and> failure_shown SyntaxError (added w (submit (Inr d) r w))
            \<and> app (submit (Inr d) r w) = app w)
         \<and> (response_json registerResponse = Parsed Null
              \<or> response_json registerResponse = Parsed Absent \<longrightarrow>
            register_step r (data_email d) = Inl TypeError
            \<and> requests (added w (submit (Inr d) r w)) = [Register (data_email d) (data_name d)]
            \<and> failure_shown TypeError (added w (submit (Inr d) r w))
            \<and> app (submit (Inr d) r w) = app w)"
proof (intro conjI impI)
  assume "response_json registerResponse = Parsed (Val body)
            \<and> \<not> truthy_id (optional_user_id body)"
  then have step: "register_step r (data_email d) = Inr (getUserIdByEmail (data_email d))"
    using register_step_fallback[OF assms] by simp
  show "register_step r (data_email d) = Inr (getUserIdByEmail (data_email d))" by (rule step)
  show "\<exists>rest. requests (added w (submit (Inr d) r w))
          = Register (data_email d) (data_name d)
            # Onboard (getUserIdByEmail (data_email d)) d # rest"
    by (rule submit_sends_onboard[OF step])
  show "submit (Inr d) r w
          = submit (Inr d)
              (r\<lparr>reply_register
                   := reply 201 (registered (getUserIdByEmail (data_email d)))\<rparr>) w"
    by (rule submit_as_fresh[OF step]) (simp add: getUserIdByEmail_def)
next
  assume "response_json registerResponse = Parsed (Val body)
            \<and> optional_user_id body = Val n \<and> n \<noteq> 0"
  then have step: "register_step r (data_email d) = Inr n" and n: "n \<noteq> 0"
    using register_step_named[OF assms] by simp_all
  show "register_step r (data_email d) = Inr n" by (rule step)
  show "\<exists>rest. requests (added w (submit (Inr d) r w))
          = Register (data_email d) (data_name d) # Onboard n d # rest"
    by (rule submit_sends_onboard[OF step])
  show "submit (Inr d) r w
          = submit (Inr d) (r\<lparr>reply_register := reply 201 (registered n)\<rparr>) w"
    by (rule submit_as_fresh[OF step n])
next
  assume "response_json registerResponse = InvalidJSON"
  then have a: "register_step r (data_email d) = Inl SyntaxError"
    by (rule register_step_unparsed(1)[OF assms])
  note t = added_append[OF submit_register_fails(1)[OF a]]
  show "register_step r (data_email d) = Inl SyntaxError" by (rule a)
  show "requests (added w (submit (Inr d) r w)) = [Register (data_email d) (data_name d)]"
    by (simp add: t requests_simps)
  show "failure_shown SyntaxError (added w (submit (Inr d) r w))"
    by (simp add: t failure_shown_def)
  show "app (submit (Inr d) r w) = app w" by (rule submit_register_fails(2)[OF a])
next
  assume "response_json registerResponse = Parsed Null
            \<or> response_json registerResponse = Parsed Absent"
  then have a: "register_step r (data_email d) = Inl TypeError"
    using register_step_unparsed(2,3)[OF assms] by blast
  note t = added_append[OF submit_register_fails(1)[OF a]]
  show "register_step r (data_email d) = Inl TypeError" by (rule a)
  show "requests (added w (submit (Inr d) r w)) = [Register (data_email d) (data_name d)]"
    by (simp add: t requests_simps)
  show "failure_shown TypeError (added w (submit (Inr d) r w))"
    by (simp add: t failure_shown_def)
  show "app (submit (Inr d) r w) = app w" by (rule submit_register_fails(2)[OF a])
qed

theorem conflict_reply_outcomes_witness:
  "reply_register already_registered
     = Resolved \<lparr>response_status = 409, response_json = Parsed (Val \<lparr>register_user = Absent\<rparr>)\<rparr>
   \<and> \<not> truthy_id (optional_user_id \<lparr>register_user = Absent\<rparr>)
   \<and> register_step already_registered (Val ''a@x.com'') = Inr 1
   \<and> (\<exists>rest. requests (added initial_world (submit (Inr example_data) already_registered initial_world))
          = Register (Val ''a@x.com'') (Val ''Asha'') # Onboard 1 example_data # rest)
   \<and> reply_register conflict_names_user
       = Resolved \<lparr>response_status = 409,
            response_json = Parsed (Val \<lparr>register_user = Val \<lparr>user_ref_id = Val 42\<rparr>\<rparr>)\<rparr>
   \<and> optional_user_id \<lparr>register_user = Val \<lparr>user_ref_id = Val 42\<rparr>\<rparr> = Val 42
   \<and> (\<exists>rest. requests (added initial_world (submit (Inr example_data) conflict_names_user initial_world))
          = Register (Val ''a@x.com'') (Val ''Asha'') # Onboard 42 example_data # rest)
   \<and> reply_register conflict_null
       = Resolved \<lparr>response_status = 409, response_json = Parsed Null\<rparr>
   \<and> requests (added initial_world (submit (Inr example_data) conflict_null initial_world))
       = [Register (Val ''a@x.com'') (Val ''Asha'')]
   \<and> failure_shown TypeError
       (added initial_world (submit (Inr example_data) conflict_null initial_world))
   \<and> reply_register conflict_not_json
       = Resolved \<lparr>response_status = 409, response_json = InvalidJSON\<rparr>
   \<and> failure_shown SyntaxError
       (added initial_world (submit (Inr example_data) conflict_not_json initial_world))
   \<and> currentUser (app (submit (Inr example_data) conflict_not_json initial_world)) = None"
proof -
  have s: "response_status \<lparr>response_status = 409, response_json = j\<rparr> = 409"
    and j: "response_json \<lparr>response_status = 409, response_json = j\<rparr> = j"
    for j :: "'a parsed"
    by simp_all
  have nz: "(42::nat) \<noteq> 0" by simp
  note a = conflict_reply_outcomes[OF conflict_examples(1) s, where d = example_data
             and w = initial_world and body = "\<lparr>register_user = Absent\<rparr>" and n = 0]
  note b = conflict_reply_outcomes[OF conflict_examples(2) s, where d = example_data
             and w = initial_world
             and body = "\<lparr>register_user = Val \<lparr>user_ref_id = Val 42\<rparr>\<rparr>" and n = 42]
  note c = conflict_reply_outcomes[OF conflict_examples(4) s, where d = example_data
             and w = initial_world and body = "\<lparr>register_user = Absent\<rparr>" and n = 0]
  note d = conflict_reply_outcomes[OF conflict_examples(3) s, where d = example_data
             and w = initial_world and body = "\<lparr>register_user = Absent\<rparr>" and n = 0]
  have a1: "register_step already_registered (Val ''a@x.com'') = Inr 1"
    and a2: "\<exists>rest. requests (added initial_world (submit (Inr example_data) already_registered initial_world))
          = Register (Val ''a@x.com'') (Val ''Asha'') # Onboard 1 example_data # rest"
    using a[THEN conjunct1, THEN mp, OF conjI[OF j conflict_bodies(1)], THEN conjunct1]
          a[THEN conjunct1, THEN mp, OF conjI[OF j conflict_bodies(1)], THEN conjunct2,
            THEN conjunct1]
    by (simp_all add: example_fields getUserIdByEmail_def)
  have b1: "\<exists>rest. requests (added initial_world (submit (Inr example_data) conflict_names_user initial_world))
          = Register (Val ''a@x.com'') (Val ''Asha'') # Onboard 42 example_data # rest"
    using b[THEN conjunct2, THEN conjunct1, THEN mp,
            OF conjI[OF j conjI[OF conflict_bodies(2) nz]], THEN conjunct2, THEN conjunct1]
    by (simp add: example_fields)
  have c1: "requests (added initial_world (submit (Inr example_data) conflict_null initial_world))
       = [Register (Val ''a@x.com'') (Val ''Asha'')]"
    and c2: "failure_shown TypeError
       (added initial_world (submit (Inr example_data) conflict_null initial_world))"
    using c[THEN conjunct2, THEN conjunct2, THEN conjunct2, THEN mp, OF disjI1[OF j]]
    by (simp_all add: example_fields)
  have d1: "failure_shown SyntaxError
       (added initial_world (submit (Inr example_data) conflict_not_json initial_world))"
    and d2: "currentUser (app (submit (Inr example_data) conflict_not_json initial_world)) = None"
    using d[THEN conjunct2, THEN conjunct2, THEN conjunct1, THEN mp, OF j]
    by (simp_all add: example_fields)
  show ?thesis
    using a1 a2 b1 c1 c2 d1 d2 conflict_examples(1,2,3,4) conflict_bodies by simp
qed

text \<open>
  As stated, C6 lets every submission proceed whose registration is answered with status
  409. Here the reply has status 409 and a body that is not JSON: reading the body raises
  a SyntaxError and the register request is the only one sent.
\<close>

theorem conflict_not_json_aborts_counterexample:
  "reply_register conflict_not_json
     = Resolved \<lparr>response_status = 409, response_json = InvalidJSON\<rparr>
   \<and> register_step conflict_not_json (data_email example_data) = Inl SyntaxError
   \<and> requests (added initial_world (submit (Inr example_data) conflict_not_json initial_world))
       = [Register (Val ''a@x.com'') (Val ''Asha'')]"
proof -
  have a: "register_step conflict_not_json (data_email example_data) = Inl SyntaxError"
    by (rule register_step_unparsed(1)[OF conflict_examples(3)]) simp_all
  show ?thesis
    using a
    by (simp add: conflict_examples(3) added_append[OF submit_register_fails(1)[OF a]]
          requests_simps example_fields)
qed

text \<open>
  Claim C10, as amended. \<open>getUserIdByEmail\<close> gives the identifier 1 for every email. So a
  registration answered with status 409 whose body parses to an object without a truthy
  \<^verbatim>\<open>user.id\<close> resolves to user 1 whatever the email, and user 1 is the identity stored
  in \<^verbatim>\<open>currentUser\<close> once complete-onboarding has succeeded. A reply with status 409
  whose body has a truthy \<^verbatim>\<open>user.id\<close> resolves to that identifier, and it is the one
  stored.
\<close>

theorem conflict_identity:
  assumes "reply_register r = Resolved registerResponse"
    and "response_status registerResponse = 409"
    and "response_json registerResponse = Parsed (Val body)"
  shows "getUserIdByEmail email = 1
         \<and> (\<not> truthy_id (optional_user_id body) \<longrightarrow>
              register_step r (data_email d) = Inr 1
              \<and> (onboard_step r = Inr u \<longrightarrow>
                   currentUser (app (submit (Inr d) r w))
                     = Some \<lparr>user_id = 1, user_data = d\<rparr>))
         \<and> (optional_user_id body = Val n \<and> n \<noteq> 0 \<longrightarrow>
              register_step r (data_email d) = Inr n
              \<and> (onboard_step r = Inr u \<longrightarrow>
                   currentUser (app (submit (Inr d) r w))
                     = Some \<lparr>user_id = n, user_data = d\<rparr>))"
proof (intro conjI impI)
  show "getUserIdByEmail email = 1" by (simp add: getUserIdByEmail_def)
next
  assume "\<not> truthy_id (optional_user_id body)"
  then show step: "register_step r (data_email d) = Inr 1"
    using register_step_fallback[OF assms] by (simp add: getUserIdByEmail_def)
  show "currentUser (app (submit (Inr d) r w)) = Some \<lparr>user_id = 1, user_data = d\<rparr>"
    if "onboard_step r = Inr u"
    by (rule submit_currentUser[OF step that])
next
  assume "optional_user_id body = Val n \<and> n \<noteq> 0"
  then show step: "register_step r (data_email d) = Inr n"
    using register_step_named[OF assms] by simp
  show "currentUser (app (submit (Inr d) r w)) = Some \<lparr>user_id = n, user_data = d\<rparr>"
    if "onboard_step r = Inr u"
    by (rule submit_currentUser[OF step that])
qed

theorem conflict_identity_witness:
  "getUserIdByEmail (Val ''a@x.com'') = 1 \<and> getUserIdByEmail (Val ''b@y.org'') = 1
   \<and> reply_register already_registered
       = Resolved \<lparr>response_status = 409, response_json = Parsed (Val \<lparr>register_user = Absent\<rparr>)\<rparr>
   \<and> \<not> truthy_id (optional_user_id \<lparr>register_user = Absent\<rparr>)
   \<and> onboard_step already_registered = Inr ()
   \<and> register_step already_registered (data_email example_data) = Inr 1
   \<and> currentUser (app (submit (Inr example_data) already_registered initial_world))
       = Some \<lparr>user_id = 1, user_data = example_data\<rparr>
   \<and> reply_register conflict_names_user
       = Resolved \<lparr>response_status = 409,
            response_json = Parsed (Val \<lparr>register_user = Val \<lparr>user_ref_id = Val 42\<rparr>\<rparr>)\<rparr>
   \<and> optional_user_id \<lparr>register_user = Val \<lparr>user_ref_id = Val 42\<rparr>\<rparr> = Val 42
   \<and> onboard_step conflict_names_user = Inr ()
   \<and> currentUser (app (submit (Inr example_data) conflict_names_user initial_world))
       = Some \<lparr>user_id = 42, user_data = example_data\<rparr>"
proof -
  have s: "response_status \<lparr>response_status = 409, response_json = j\<rparr> = 409"
    and j: "response_json \<lparr>response_status = 409, response_json = j\<rparr> = j"
    for j :: "'a parsed"
    by simp_all
  note a = conflict_identity[OF conflict_examples(1) s j, where d = example_data
             and w = initial_world and n = 0 and u = "()" and email = "Val ''a@x.com''"]
  note a' = conflict_identity[OF conflict_examples(1) s j, where d = example_data
             and w = initial_world and n = 0 and u = "()" and email = "Val ''b@y.org''"]
  note b = conflict_identity[OF conflict_examples(2) s j, where d = example_data
             and w = initial_world and n = 42 and u = "()" and email = "Val ''a@x.com''"]
  show ?thesis
    using a a'[THEN conjunct1] b conflict_examples(1,2,5) conflict_bodies example_steps(8)
    by simp
qed

text \<open>
  As stated, C10 makes every reply with status 409 resolve to one user. Here two replies
  with status 409 resolve to different users: the body of the first names no user and the
  fallback gives user 1, the body of the second names user 42.
\<close>

theorem conflict_names_user_counterexample:
  "reply_register already_registered
     = Resolved \<lparr>response_status = 409, response_json = Parsed (Val \<lparr>register_user = Absent\<rparr>)\<rparr>
   \<and> register_step already_registered (Val ''a@x.com'') = Inr 1
   \<and> reply_register conflict_names_user
       = Resolved \<lparr>response_status = 409,
            response_json = Parsed (Val \<lparr>register_user = Val \<lparr>user_ref_id = Val 42\<rparr>\<rparr>)\<rparr>
   \<and> register_step conflict_names_user (Val ''a@x.com'') = Inr 42"
proof -
  have "register_step conflict_names_user (Val ''a@x.com'') = Inr 42"
    by (rule register_step_named[OF conflict_examples(2) _ _ conflict_bodies(2)]) simp_all
  then show ?thesis by (simp add: conflict_examples(1,2) example_steps(7))
qed

subsection \<open>The multi-step form\<close>


lemma check_inputs_isValid:
  "fst (check_inputs i inputs (v, f, es)) \<longleftrightarrow> v \<and> (\<forall>x\<in>set inputs. \<not> invalid_field x)"
  by (induction inputs arbitrary: i v f es) (auto simp: invalid_field_def)

lemma check_inputs_keeps_first:
  "fst (snd (check_inputs i inputs (v, Some j, es))) = Some j"
  by (induction inputs arbitrary: i v es) auto

lemma check_inputs_firstInvalid:
  "\<exists>x\<in>set inputs. invalid_field x \<Longrightarrow>
     \<exists>k<length inputs. fst (snd (check_inputs i inputs (v, None, es))) = Some (i + k)
        \<and> invalid_field (inputs ! k) \<and> (\<forall>j<k. \<not> invalid_field (inputs ! j))"
proof (induction inputs arbitrary: i v es)
  case Nil
  then show ?case by simp
next
  case (Cons x xs)
  show ?case
  proof (cases "invalid_field x")
    case True
    then have "fst (snd (check_inputs i (x # xs) (v, None, es))) = Some (i + 0)"
      by (simp add: invalid_field_def check_inputs_keeps_first)
    with True show ?thesis by (intro exI[of _ 0]) simp
  next
    case False
    with Cons.prems have "\<exists>y\<in>set xs. invalid_field y" by auto
    define es1 where "es1 = (if input_type x = ''hidden'' then es else es @ [RemoveErrorClass i])"
    have step: "check_inputs i (x # xs) (v, None, es) = check_inputs (i + 1) xs (v, None, es1)"
      using False by (auto simp: invalid_field_def es1_def)
    from Cons.IH[OF \<open>\<exists>y\<in>set xs. invalid_field y\<close>, of "i + 1" v es1]
    obtain k where k: "k < length xs"
      "fst (snd (check_inputs (i + 1) xs (v, None, es1))) = Some (i + 1 + k)"
      "invalid_field (xs ! k)" "\<forall>j<k. \<not> invalid_field (xs ! j)"
      by blast
    have "\<forall>j<Suc k. \<not> invalid_field ((x # xs) ! j)"
      using False k(4) by (auto simp: nth_Cons split: nat.splits)
    moreover have "fst (snd (check_inputs i (x # xs) (v, None, es))) = Some (i + Suc k)"
      unfolding step using k(2) by simp
    ultimately show ?thesis
      using k(1,3) by (intro exI[of _ "Suc k"]) (simp del: check_inputs.simps)
  qed
qed

lemma check_inputs_effects:
  "\<exists>new. snd (snd (check_inputs i inputs (v, f, es))) = es @ new
      \<and> (\<forall>m t. ShowToast m t \<notin> set new) \<and> (\<forall>j. Focus j \<notin> set new)"
proof (induction inputs arbitrary: i v f es)
  case Nil
  then show ?case by simp
next
  case (Cons x xs)
  consider (hidden) "input_type x = ''hidden''"
    | (invalid) "input_type x \<noteq> ''hidden''" "\<not> input_valid x"
    | (valid) "input_type x \<noteq> ''hidden''" "input_valid x"
    by blast
  then show ?case
  proof cases
    case hidden
    then show ?thesis using Cons.IH[of "i + 1" v f es] by simp
  next
    case invalid
    obtain new where new:
      "snd (snd (check_inputs (i + 1) xs
          (False, (if f = None then Some i else f),
           es @ [RemoveErrorClass i, ReportValidity i, AddErrorClass i])))
        = (es @ [RemoveErrorClass i, ReportValidity i, AddErrorClass i]) @ new"
      "\<forall>m t. ShowToast m t \<notin> set new" "\<forall>j. Focus j \<notin> set new"
      using Cons.IH by blast
    show ?thesis
      using invalid new
      by (intro exI[of _ "[RemoveErrorClass i, ReportValidity i, AddErrorClass i] @ new"]) simp
  next
    case valid
    obtain new where new:
      "snd (snd (check_inputs (i + 1) xs (v, f, es @ [RemoveErrorClass i])))
        = (es @ [RemoveErrorClass i]) @ new"
      "\<forall>m t. ShowToast m t \<notin> set new" "\<forall>j. Focus j \<notin> set new"
      using Cons.IH by blast
    show ?thesis
      using valid new by (intro exI[of _ "[RemoveErrorClass i] @ new"]) simp
  qed
qed

lemma currentStep_updateStepVisibility:
  "currentStep (updateStepVisibility pg s) = currentStep s"
  by (simp add: updateStepVisibility_def)

lemma nextBtn_click_no_step:
  "page_stepEl pg (currentStep s) = None \<Longrightarrow> nextBtn_click pg s = (s, [])"
  by (simp add: nextBtn_click_def)

lemma nextBtn_click_invalid:
  assumes el: "page_stepEl pg (currentStep s) = Some inputs"
    and bad: "\<exists>x\<in>set inputs. invalid_field x"
  shows "fst (nextBtn_click pg s) = s"
    and "\<exists>k pre. k < length inputs \<and> invalid_field (inputs ! k)
           \<and> (\<forall>j<k. \<not> invalid_field (inputs ! j))
           \<and> snd (nextBtn_click pg s)
               = pre @ [Focus k, ShowToast ''Please fill in all required fields.'' ''error'']"
proof -
  obtain isValid firstInvalid effects
    where c: "check_inputs 0 inputs (True, None, []) = (isValid, firstInvalid, effects)"
    by (cases "check_inputs 0 inputs (True, None, [])") auto
  have v: "\<not> isValid" using check_inputs_isValid[of 0 inputs True None "[]"] bad c by simp
  obtain k where k: "k < length inputs" "firstInvalid = Some k" "invalid_field (inputs ! k)"
    "\<forall>j<k. \<not> invalid_field (inputs ! j)"
    using check_inputs_firstInvalid[OF bad, of 0 True "[]"] c by auto
  show "fst (nextBtn_click pg s) = s"
    using el c v by (simp add: nextBtn_click_def)
  have "snd (nextBtn_click pg s)
          = effects @ [Focus k, ShowToast ''Please fill in all required fields.'' ''error'']"
    using el c v k(2) by (simp add: nextBtn_click_def)
  with k show "\<exists>k pre. k < length inputs \<and> invalid_field (inputs ! k)
           \<and> (\<forall>j<k. \<not> invalid_field (inputs ! j))
           \<and> snd (nextBtn_click pg s)
               = pre @ [Focus k, ShowToast ''Please fill in all required fields.'' ''error'']"
    by blast
qed

lemma nextBtn_click_valid:
  assumes el: "page_stepEl pg (currentStep s) = Some inputs"
    and good: "\<forall>x\<in>set inputs. \<not> invalid_field x"
  shows "currentStep (fst (nextBtn_click pg s))
           = (if currentStep s < totalSteps then currentStep s + 1 else currentStep s)"
    and "ShowToast m t \<notin> set (snd (nextBtn_click pg s))"
proof -
  obtain isValid firstInvalid effects
    where c: "check_inputs 0 inputs (True, None, []) = (isValid, firstInvalid, effects)"
    by (cases "check_inputs 0 inputs (True, None, [])") auto
  have v: "isValid" using check_inputs_isValid[of 0 inputs True None "[]"] good c by simp
  have e: "ShowToast m t \<notin> set effects"
    using check_inputs_effects[of 0 inputs True None "[]"] c by auto
  show "currentStep (fst (nextBtn_click pg s))
           = (if currentStep s < totalSteps then currentStep s + 1 else currentStep s)"
    using el c v by (simp add: nextBtn_click_def currentStep_updateStepVisibility)
  show "ShowToast m t \<notin> set (snd (nextBtn_click pg s))"
    using el c v e by (simp add: nextBtn_click_def)
qed

text \<open>
  Claim C3. When the current step's element is in the page: if one of its inputs that
  is not hidden fails its constraint check, the click leaves the form state (and so the
  step counter) as it was, and its last two calls focus the first such input and show
  the error toast; if every such input passes, the counter goes up by one below the
  final step, stays at the final step, and no toast is shown.
\<close>

theorem nextBtn_click_validates:
  assumes "page_stepEl pg (currentStep s) = Some inputs"
  shows "((\<exists>x\<in>set inputs. invalid_field x) \<longrightarrow>
            fst (nextBtn_click pg s) = s
            \<and> (\<exists>k pre. k < length inputs \<and> invalid_field (inputs ! k)
                  \<and> (\<forall>j<k. \<not> invalid_field (inputs ! j))
                  \<and> snd (nextBtn_click pg s)
                      = pre @ [Focus k,
                               ShowToast ''Please fill in all required fields.'' ''error'']))
         \<and> ((\<forall>x\<in>set inputs. \<not> invalid_field x) \<longrightarrow>
            currentStep (fst (nextBtn_click pg s))
              = (if currentStep s < totalSteps then currentStep s + 1 else currentStep s)
            \<and> (\<forall>m t. ShowToast m t \<notin> set (snd (nextBtn_click pg s))))"
  using nextBtn_click_invalid[OF assms] nextBtn_click_valid[OF assms] by blast

lemma invalid_page_step1:
  "page_stepEl invalid_page (currentStep (initOnboarding invalid_page))
     = Some [\<lparr>input_type = ''hidden'', input_valid = False\<rparr>,
             \<lparr>input_type = ''text'', input_valid = True\<rparr>,
             \<lparr>input_type = ''email'', input_valid = False\<rparr>,
             \<lparr>input_type = ''text'', input_valid = False\<rparr>]"
  by (simp add: initOnboarding_def invalid_page_def valid_page_def updateStepVisibility_def)

lemma valid_page_step1:
  "page_stepEl valid_page (currentStep (initOnboarding valid_page))
     = Some [\<lparr>input_type = ''text'', input_valid = True\<rparr>]"
  by (simp add: initOnboarding_def valid_page_def updateStepVisibility_def)

theorem nextBtn_click_validates_witness:
  "currentStep (fst (nextBtn_click invalid_page (initOnboarding invalid_page))) = 1
   \<and> snd (nextBtn_click invalid_page (initOnboarding invalid_page))
       = [RemoveErrorClass 1, RemoveErrorClass 2, ReportValidity 2, AddErrorClass 2,
          RemoveErrorClass 3, ReportValidity 3, AddErrorClass 3,
          Focus 2, ShowToast ''Please fill in all required fields.'' ''error'']
   \<and> currentStep (fst (nextBtn_click valid_page (initOnboarding valid_page))) = 2"
proof -
  have a: "\<exists>x\<in>set [\<lparr>input_type = ''hidden'', input_valid = False\<rparr>,
             \<lparr>input_type = ''text'', input_valid = True\<rparr>,
             \<lparr>input_type = ''email'', input_valid = False\<rparr>,
             \<lparr>input_type = ''text'', input_valid = False\<rparr>]. invalid_field x"
    by (simp add: invalid_field_def)
  have b: "\<forall>x\<in>set [\<lparr>input_type = ''text'', input_valid = True\<rparr>]. \<not> invalid_field x"
    by (simp add: invalid_field_def)
  have s1: "currentStep (initOnboarding invalid_page) = 1"
    "currentStep (initOnboarding valid_page) = 1"
    by (simp_all add: initOnboarding_def currentStep_updateStepVisibility)
  have "fst (nextBtn_click invalid_page (initOnboarding invalid_page)) = initOnboarding invalid_page"
    using nextBtn_click_validates[OF invalid_page_step1] a by blast
  moreover have "currentStep (fst (nextBtn_click valid_page (initOnboarding valid_page))) = 2"
    using nextBtn_click_validates[OF valid_page_step1] b by (simp add: s1 totalSteps_def)
  moreover have "snd (nextBtn_click invalid_page (initOnboarding invalid_page))
       = [RemoveErrorClass 1, RemoveErrorClass 2, ReportValidity 2, AddErrorClass 2,
          RemoveErrorClass 3, ReportValidity 3, AddErrorClass 3,
          Focus 2, ShowToast ''Please fill in all required fields.'' ''error'']"
    by (simp add: nextBtn_click_def invalid_page_step1)
  ultimately show ?thesis by (simp add: s1)
qed

lemma currentStep_prevBtn_click:
  "currentStep (prevBtn_click pg s) = (if 1 < currentStep s then currentStep s - 1 else currentStep s)"
  by (simp add: prevBtn_click_def currentStep_updateStepVisibility)

lemma currentStep_nextBtn_click:
  "currentStep (fst (nextBtn_click pg s)) = currentStep s
   \<or> (currentStep s < totalSteps \<and> currentStep (fst (nextBtn_click pg s)) = currentStep s + 1)"
  by (auto simp: nextBtn_click_def currentStep_updateStepVisibility
        split: option.splits prod.splits)

lemma on_click_bounds:
  assumes "1 \<le> currentStep s" "currentStep s \<le> totalSteps"
  shows "1 \<le> currentStep (on_click s c) \<and> currentStep (on_click s c) \<le> totalSteps"
proof (cases c)
  case (Next pg)
  then show ?thesis using assms currentStep_nextBtn_click[of pg s] by auto
next
  case (Prev pg)
  then show ?thesis using assms by (auto simp: currentStep_prevBtn_click)
qed

lemma run_clicks_bounds:
  "1 \<le> currentStep s \<Longrightarrow> currentStep s \<le> totalSteps \<Longrightarrow>
     1 \<le> currentStep (run_clicks s clicks) \<and> currentStep (run_clicks s clicks) \<le> totalSteps"
  unfolding run_clicks_def
proof (induction clicks arbitrary: s)
  case Nil
  then show ?case by simp
next
  case (Cons c cs)
  then show ?case using on_click_bounds[of s c] by simp
qed

lemma currentStep_initOnboarding: "currentStep (initOnboarding pg) = 1"
  by (simp add: initOnboarding_def currentStep_updateStepVisibility)

lemma submit_follows_update:
  "0 < page_steps pg \<Longrightarrow> page_submitBtn pg \<Longrightarrow> submit_follows (updateStepVisibility pg s)"
  by (simp add: submit_follows_def updateStepVisibility_def)

lemma submit_follows_click:
  assumes "submit_follows s" "0 < page_steps (click_page c)" "page_submitBtn (click_page c)"
  shows "submit_follows (on_click s c)"
proof (cases c)
  case (Next pg)
  then show ?thesis
    using assms submit_follows_update[of pg]
    by (auto simp: nextBtn_click_def split: option.splits prod.splits)
next
  case (Prev pg)
  then show ?thesis
    using assms submit_follows_update[of pg] by (auto simp: prevBtn_click_def)
qed

lemma submit_follows_run:
  "submit_follows s \<Longrightarrow> \<forall>c\<in>set clicks. 0 < page_steps (click_page c) \<and> page_submitBtn (click_page c)
     \<Longrightarrow> submit_follows (run_clicks s clicks)"
  unfolding run_clicks_def
proof (induction clicks arbitrary: s)
  case Nil
  then show ?case by simp
next
  case (Cons c cs)
  then show ?case using submit_follows_click[of s c] by simp
qed

text \<open>
  Claim C8. The step counter starts at 1 and stays between 1 and \<open>totalSteps = 4\<close>
  under every sequence of clicks on the next and previous buttons; a previous click at
  step 1 and a next click at the final step leave it where it is; and when every page
  the handlers see has form steps and the submit button, the submit button is shown
  (\<^verbatim>\<open>inline-flex\<close>) exactly at the final step.
\<close>

theorem currentStep_bounded:
  "totalSteps = 4
   \<and> currentStep (initOnboarding pg) = 1
   \<and> 1 \<le> currentStep (run_clicks (initOnboarding pg) clicks)
   \<and> currentStep (run_clicks (initOnboarding pg) clicks) \<le> totalSteps
   \<and> (currentStep s = 1 \<longrightarrow> currentStep (prevBtn_click pg' s) = 1)
   \<and> (currentStep s = totalSteps \<longrightarrow> currentStep (fst (nextBtn_click pg' s)) = totalSteps)
   \<and> ((\<forall>p\<in>set (pg # map click_page clicks). 0 < page_steps p \<and> page_submitBtn p) \<longrightarrow>
        (submitBtn_display (run_clicks (initOnboarding pg) clicks) = Some ''inline-flex''
           \<longleftrightarrow> currentStep (run_clicks (initOnboarding pg) clicks) = totalSteps))"
proof (intro conjI impI)
  show "totalSteps = 4" by (simp add: totalSteps_def)
  show "currentStep (initOnboarding pg) = 1" by (rule currentStep_initOnboarding)
  have b: "1 \<le> currentStep (run_clicks (initOnboarding pg) clicks)
        \<and> currentStep (run_clicks (initOnboarding pg) clicks) \<le> totalSteps"
    by (rule run_clicks_bounds) (simp_all add: currentStep_initOnboarding totalSteps_def)
  from b show "1 \<le> currentStep (run_clicks (initOnboarding pg) clicks)" by simp
  from b show "currentStep (run_clicks (initOnboarding pg) clicks) \<le> totalSteps" by simp
  show "currentStep (prevBtn_click pg' s) = 1" if "currentStep s = 1"
    using that by (simp add: currentStep_prevBtn_click)
  show "currentStep (fst (nextBtn_click pg' s)) = totalSteps" if "currentStep s = totalSteps"
    using that currentStep_nextBtn_click[of pg' s] by auto
  show "submitBtn_display (run_clicks (initOnboarding pg) clicks) = Some ''inline-flex''
          \<longleftrightarrow> currentStep (run_clicks (initOnboarding pg) clicks) = totalSteps"
    if "\<forall>p\<in>set (pg # map click_page clicks). 0 < page_steps p \<and> page_submitBtn p"
  proof -
    have "submit_follows (initOnboarding pg)"
      using that by (simp add: initOnboarding_def submit_follows_update)
    then have "submit_follows (run_clicks (initOnboarding pg) clicks)"
      using that by (intro submit_follows_run) simp_all
    then show ?thesis by (simp add: submit_follows_def)
  qed
qed

theorem currentStep_bounded_witness:
  "0 < page_steps valid_page \<and> page_submitBtn valid_page
   \<and> currentStep (run_clicks (initOnboarding valid_page)
        [Next valid_page, Next valid_page, Next valid_page, Next valid_page]) = 4
   \<and> submitBtn_display (run_clicks (initOnboarding valid_page)
        [Next valid_page, Next valid_page, Next valid_page, Next valid_page]) = Some ''inline-flex''
   \<and> currentStep (run_clicks (initOnboarding valid_page)
        [Next valid_page, Next valid_page, Next valid_page, Next valid_page, Prev valid_page]) = 3
   \<and> submitBtn_display (run_clicks (initOnboarding valid_page)
        [Next valid_page, Next valid_page, Next valid_page, Next valid_page, Prev valid_page])
       \<noteq> Some ''inline-flex''
   \<and> currentStep (prevBtn_click valid_page (initOnboarding valid_page)) = 1"
proof -
  let ?four = "[Next valid_page, Next valid_page, Next valid_page, Next valid_page]"
  let ?five = "[Next valid_page, Next valid_page, Next valid_page, Next valid_page, Prev valid_page]"
  have p: "0 < page_steps valid_page \<and> page_submitBtn valid_page" by (simp add: valid_page_def)
  have c4: "currentStep (run_clicks (initOnboarding valid_page) ?four) = 4"
    by code_simp
  have c5: "currentStep (run_clicks (initOnboarding valid_page) ?five) = 3"
    by code_simp
  show ?thesis
    using currentStep_bounded[of valid_page ?four "initOnboarding valid_page" valid_page]
      currentStep_bounded[of valid_page ?five "initOnboarding valid_page" valid_page]
      p c4 c5
    by (simp add: currentStep_initOnboarding)
qed

subsection \<open>The image upload and the task filters\<close>


text \<open>
  Claim C9. A selected file whose type does not start with \<open>image/\<close>, or whose size is
  over \<open>2 * 1024 * 1024\<close> bytes, is rejected at once: the only call is an error toast, no
  request is sent, and the stored base64 value and the preview stay as they were. A
  file with an image type and at most \<open>2 * 1024 * 1024\<close> bytes goes to the reader, and the
  data URL it loads becomes the stored value.
\<close>

theorem photo_upload_validation:
  "(\<not> startsWith (file_type f) ''image/'' \<longrightarrow>
      photo_upload (Some f) read p = (p, [ShowToast ''Please upload a valid image file'' ''error'']))
   \<and> (startsWith (file_type f) ''image/'' \<and> 2 * 1024 * 1024 < file_size f \<longrightarrow>
      photo_upload (Some f) read p = (p, [ShowToast ''Image is too large (max 2MB)'' ''error'']))
   \<and> (startsWith (file_type f) ''image/'' \<and> file_size f \<le> 2 * 1024 * 1024 \<longrightarrow>
      photoInput_change (Some f) = [ReadAsDataURL]
      \<and> photo_upload (Some f) (Some result) p
          = (\<lparr>photoBase64_value = result, photoPreview_src = Some result\<rparr>, [ReadAsDataURL]))
   \<and> requests (snd (photo_upload (Some f) read p)) = []"
  by (cases read)
     (auto simp: photo_upload_def photoInput_change_def reader_onload_def reader_onerror_def
        requests_def Let_def)

theorem photo_upload_validation_witness:
  "\<not> startsWith (file_type \<lparr>file_type = ''text/plain'', file_size = 10\<rparr>) ''image/''
   \<and> photo_upload (Some \<lparr>file_type = ''text/plain'', file_size = 10\<rparr>) (Some ''data:x'')
        \<lparr>photoBase64_value = ''old'', photoPreview_src = None\<rparr>
       = (\<lparr>photoBase64_value = ''old'', photoPreview_src = None\<rparr>,
          [ShowToast ''Please upload a valid image file'' ''error''])
   \<and> startsWith (file_type \<lparr>file_type = ''image/png'', file_size = 2097153\<rparr>) ''image/''
   \<and> 2 * 1024 * 1024 < file_size \<lparr>file_type = ''image/png'', file_size = 2097153\<rparr>
   \<and> photo_upload (Some \<lparr>file_type = ''image/png'', file_size = 2097153\<rparr>) (Some ''data:x'')
        \<lparr>photoBase64_value = ''old'', photoPreview_src = None\<rparr>
       = (\<lparr>photoBase64_value = ''old'', photoPreview_src = None\<rparr>,
          [ShowToast ''Image is too large (max 2MB)'' ''error''])
   \<and> file_size \<lparr>file_type = ''image/png'', file_size = 2097152\<rparr> \<le> 2 * 1024 * 1024
   \<and> photo_upload (Some \<lparr>file_type = ''image/png'', file_size = 2097152\<rparr>) (Some ''data:x'')
        \<lparr>photoBase64_value = ''old'', photoPreview_src = None\<rparr>
       = (\<lparr>photoBase64_value = ''data:x'', photoPreview_src = Some ''data:x''\<rparr>, [ReadAsDataURL])"
proof -
  have a: "\<not> startsWith ''text/plain'' ''image/''" "startsWith ''image/png'' ''image/''"
    by (simp_all add: startsWith_def)
  show ?thesis
    using photo_upload_validation[of "\<lparr>file_type = ''text/plain'', file_size = 10\<rparr>"
            "Some ''data:x''" "\<lparr>photoBase64_value = ''old'', photoPreview_src = None\<rparr>"]
      photo_upload_validation[of "\<lparr>file_type = ''image/png'', file_size = 2097153\<rparr>"
            "Some ''data:x''" "\<lparr>photoBase64_value = ''old'', photoPreview_src = None\<rparr>"]
      photo_upload_validation[of "\<lparr>file_type = ''image/png'', file_size = 2097152\<rparr>"
            "Some ''data:x''" "\<lparr>photoBase64_value = ''old'', photoPreview_src = None\<rparr>" "''data:x''"]
      a
    by simp
qed

lemma array_filter_loop_filter: "array_filter_loop p xs res = res @ filter p xs"
  by (induction xs arbitrary: res) simp_all

lemma array_filter_filter: "array_filter p xs = filter p xs"
  by (simp add: array_filter_def array_filter_loop_filter)

lemma display_keeps:
  "display elementId html w = Inr w' \<Longrightarrow> app w' = app w \<and> trace w' = trace w"
  by (cases html) (auto simp: display_def and_then_def set_innerHTML_def)


lemma filterBtn_click_effects:
  "trace (fst (filterBtn_click f w)) = trace w @ [ActivateFilterButton]"
  "app (fst (filterBtn_click f w)) = app w"
  by (auto simp: filterBtn_click_def Let_def emit_def displayTasks_def
        split: field.splits sum.splits dest: display_keeps)

text \<open>
  Claim C4. Filtering a task list by a value other than \<open>all\<close> keeps exactly the tasks
  whose \<^verbatim>\<open>item_type\<close> is that value, in their original order; filtering by \<open>all\<close> gives
  the list unchanged. A click on a filter button sends no request and leaves the session
  state, and so the cached list, as it was.
\<close>

theorem displayTasks_filtering:
  "(filter' \<noteq> ''all'' \<longrightarrow>
      filteredTasks tasks filter' = filter (\<lambda>t. task_item_type t = Val filter') tasks)
   \<and> filteredTasks tasks ''all'' = tasks
   \<and> (\<forall>e\<in>set (added w (fst (filterBtn_click f w))). \<not> is_Fetch e)
   \<and> app (fst (filterBtn_click f w)) = app w"
  by (simp add: filteredTasks_def array_filter_filter added_def filterBtn_click_effects)

theorem displayTasks_filtering_witness:
  "''course'' \<noteq> ''all''
   \<and> filteredTasks example_tasks ''course''
       = [example_task ''Algebra'' ''course'', example_task ''Calculus'' ''course'']
   \<and> filteredTasks example_tasks ''all'' = example_tasks
   \<and> added (initial_world\<lparr>app := initial_AppState\<lparr>progressData := Val example_tasks\<rparr>\<rparr>)
        (fst (filterBtn_click (Some ''course'')
           (initial_world\<lparr>app := initial_AppState\<lparr>progressData := Val example_tasks\<rparr>\<rparr>)))
       = [ActivateFilterButton]"
proof -
  let ?w = "initial_world\<lparr>app := initial_AppState\<lparr>progressData := Val example_tasks\<rparr>\<rparr>"
  have "filter (\<lambda>t. task_item_type t = Val ''course'') example_tasks
          = [example_task ''Algebra'' ''course'', example_task ''Calculus'' ''course'']"
    by (simp add: example_tasks_def example_task_def)
  then show ?thesis
    using displayTasks_filtering[of "''course''" example_tasks ?w "Some ''course''"]
    by (simp add: added_def filterBtn_click_effects)
qed

subsection \<open>The display functions\<close>





























end
